theory Spec2Isabelle
  imports Main
begin

section \<open>Python strings\<close>

text \<open>
  A Python \<open>str\<close> is a sequence of code points. The model takes the code points
  0 to 255, one \<^typ>\<open>char\<close> each, so that \<^const>\<open>length\<close> counts what Python's
  \<open>len\<close> counts on them.
\<close>

definition isspace :: "char \<Rightarrow> bool" where
  \<comment> \<open>\<open>str.isspace\<close> on the code points below 256: tab to carriage return, the four
      separators 0x1C to 0x1F, space, NEL (0x85) and the no-break space (0xA0).\<close>
  "isspace c = (let n = (of_char c :: nat) in
     (9 \<le> n \<and> n \<le> 13) \<or> (28 \<le> n \<and> n \<le> 32) \<or> n = 133 \<or> n = 160)"

definition lstrip :: "string \<Rightarrow> string" where
  "lstrip s = dropWhile isspace s"

definition rstrip :: "string \<Rightarrow> string" where
  "rstrip s = rev (dropWhile isspace (rev s))"

definition strip :: "string \<Rightarrow> string" where
  "strip s = rstrip (lstrip s)"

definition startswith :: "string \<Rightarrow> string \<Rightarrow> bool" where
  "startswith s p = (take (length p) s = p)"

definition endswith :: "string \<Rightarrow> string \<Rightarrow> bool" where
  "endswith s p = (length p \<le> length s \<and> drop (length s - length p) s = p)"

definition replace :: "char \<Rightarrow> string \<Rightarrow> string \<Rightarrow> string" where
  \<comment> \<open>\<open>s.replace(old, new)\<close> for a one-character \<open>old\<close>\<close>
  "replace old new s = concat (map (\<lambda>c. if c = old then new else [c]) s)"

fun join :: "string \<Rightarrow> string list \<Rightarrow> string" where
  "join sep [] = []"
| "join sep [x] = x"
| "join sep (x # y # ys) = x @ sep @ join sep (y # ys)"

fun split :: "char \<Rightarrow> string \<Rightarrow> string list" where
  \<comment> \<open>\<open>s.split(sep)\<close> for a one-character \<open>sep\<close>: the empty string gives one empty field\<close>
  "split sep [] = [[]]"
| "split sep (c # cs) =
     (if c = sep then [] # split sep cs
      else (case split sep cs of [] \<Rightarrow> [[c]] | f # fs \<Rightarrow> (c # f) # fs))"

fun str_nat :: "nat \<Rightarrow> string" where
  "str_nat n =
     (if n < 10 then [char_of (48 + n)]
      else str_nat (n div 10) @ [char_of (48 + n mod 10)])"

declare str_nat.simps [simp del]

definition str_int :: "int \<Rightarrow> string" where
  \<comment> \<open>\<open>str(x)\<close> of a Python integer\<close>
  "str_int i = (if i < 0 then CHR ''-'' # str_nat (nat (- i)) else str_nat (nat i))"

definition lower_char :: "char \<Rightarrow> char" where
  \<comment> \<open>\<open>str.lower\<close> on one code point below 256: A to Z, and 0xC0 to 0xDE but the
      multiplication sign 0xD7, move up by 32\<close>
  "lower_char c = (let n = (of_char c :: nat) in
     if (65 \<le> n \<and> n \<le> 90) \<or> (192 \<le> n \<and> n \<le> 222 \<and> n \<noteq> 215) then char_of (n + 32) else c)"

definition lower :: "string \<Rightarrow> string" where
  "lower s = map lower_char s"


section \<open>Paths and the file system\<close>

text \<open>
  A \<open>pathlib.Path\<close> on POSIX: a root (\<open>''''\<close>, \<open>''/''\<close> or \<open>''//''\<close>) and the list of
  components. \<open>Path(s)\<close> splits at the separator and drops empty components and
  \<open>''.''\<close>; exactly two leading separators are kept as the root \<open>''//''\<close>.
\<close>

datatype path = PosixPath (anchor: string) (parts: "string list")

definition os_path_sep :: string where
  "os_path_sep = ''/''"

definition splitroot :: "string \<Rightarrow> string \<times> string" where
  "splitroot p =
     (if take 1 p \<noteq> ''/'' then ('''', p)
      else if take 1 (drop 1 p) \<noteq> ''/'' \<or> take 1 (drop 2 p) = ''/'' then (''/'', drop 1 p)
      else (''//'', drop 2 p))"

definition Path :: "string \<Rightarrow> path" where
  "Path s = (case splitroot s of (r, rel) \<Rightarrow>
     PosixPath r (filter (\<lambda>x. x \<noteq> [] \<and> x \<noteq> ''.'') (split CHR ''/'' rel)))"

definition truediv :: "path \<Rightarrow> string \<Rightarrow> path" where
  \<comment> \<open>\<open>p / s\<close>: a rooted \<open>s\<close> replaces \<open>p\<close>, any other is appended\<close>
  "truediv p s = (let q = Path s in
     if anchor q \<noteq> [] then q else PosixPath (anchor p) (parts p @ parts q))"

text \<open>
  The file system as the program sees it: the text of the files it opens, and the
  answers of \<open>Path.is_file\<close> and \<open>Path.is_dir\<close>. Writing one file changes the text
  stored under that path and nothing else.
\<close>

record filesystem =
  files :: "path \<rightharpoonup> string"
  is_file :: "path \<Rightarrow> bool"
  is_dir :: "path \<Rightarrow> bool"

fun universal_newlines :: "string \<Rightarrow> string" where
  \<comment> \<open>text mode on reading: \<open>\r\n\<close> and a lone \<open>\r\<close> become \<open>\n\<close>\<close>
  "universal_newlines [] = []"
| "universal_newlines [c] = (if c = CHR 0x0D then [CHR 0x0A] else [c])"
| "universal_newlines (c # d # cs) =
     (if c = CHR 0x0D then
        (if d = CHR 0x0A then CHR 0x0A # universal_newlines cs
         else CHR 0x0A # universal_newlines (d # cs))
      else c # universal_newlines (d # cs))"

fun splitlines_keepends :: "string \<Rightarrow> string list" where
  \<comment> \<open>the lines of a text, each with its \<open>\n\<close>; the last one may have none\<close>
  "splitlines_keepends [] = []"
| "splitlines_keepends (c # cs) =
     (if c = CHR 0x0A then [c] # splitlines_keepends cs
      else (case splitlines_keepends cs of [] \<Rightarrow> [[c]] | l # ls \<Rightarrow> (c # l) # ls))"

datatype exn =
    FileNotFoundError path
  | KeyError string
  | ValueError string
  | DuplicateSectionError string
  | NoSectionError string

definition read_text :: "filesystem \<Rightarrow> path \<Rightarrow> exn + string" where
  \<comment> \<open>\<open>open(p).read()\<close>\<close>
  "read_text fs p = (case files fs p of None \<Rightarrow> Inl (FileNotFoundError p)
     | Some s \<Rightarrow> Inr (universal_newlines s))"

definition readlines :: "filesystem \<Rightarrow> path \<Rightarrow> exn + string list" where
  \<comment> \<open>\<open>open(p).readlines()\<close>\<close>
  "readlines fs p = (case read_text fs p of Inl e \<Rightarrow> Inl e
     | Inr s \<Rightarrow> Inr (splitlines_keepends s))"

definition write_text :: "filesystem \<Rightarrow> path \<Rightarrow> string \<Rightarrow> filesystem" where
  \<comment> \<open>\<open>open(p, "w").write(s)\<close>; \<open>os.linesep\<close> is \<open>\n\<close>\<close>
  "write_text fs p s = fs\<lparr>files := (files fs)(p \<mapsto> s)\<rparr>"


section \<open>The configparser module\<close>

text \<open>
  A \<open>ConfigParser\<close> holds the defaults and the sections, each a dictionary from option
  names to values. Python dictionaries keep insertion order, and storing under a key that
  is present keeps its place: an association list with \<open>dict_set\<close>.
\<close>

type_synonym items = "(string \<times> string) list"

fun dict_set :: "('k \<times> 'v) list \<Rightarrow> 'k \<Rightarrow> 'v \<Rightarrow> ('k \<times> 'v) list" where
  "dict_set [] k v = [(k, v)]"
| "dict_set ((k', v') # d) k v = (if k' = k then (k, v) # d else (k', v') # dict_set d k v)"

record ConfigParser =
  defaults :: items
  sections :: "(string \<times> items) list"

definition new_ConfigParser :: ConfigParser where
  "new_ConfigParser = \<lparr>defaults = [], sections = []\<rparr>"

definition add_section :: "string \<Rightarrow> ConfigParser \<Rightarrow> exn + ConfigParser" where
  "add_section section cp =
     (if section = ''DEFAULT'' then Inl (ValueError section)
      else if section \<in> set (map fst (sections cp)) then Inl (DuplicateSectionError section)
      else Inr (cp\<lparr>sections := sections cp @ [(section, [])]\<rparr>))"

fun remove_escaped :: "string \<Rightarrow> string" where
  \<comment> \<open>\<open>value.replace('%%', '')\<close>\<close>
  "remove_escaped (c # d # cs) =
     (if c = CHR ''%'' \<and> d = CHR ''%'' then remove_escaped cs else c # remove_escaped (d # cs))"
| "remove_escaped cs = cs"

function remove_keys :: "string \<Rightarrow> string" where
  \<comment> \<open>\<open>re.sub(r"%\(([^)]+)\)s", '', value)\<close>\<close>
  "remove_keys [] = []"
| "remove_keys (c # cs) =
     (if c = CHR ''%'' \<and> take 1 cs = ''(''
         \<and> takeWhile (\<lambda>x. x \<noteq> CHR '')'') (drop 1 cs) \<noteq> []
         \<and> take 2 (dropWhile (\<lambda>x. x \<noteq> CHR '')'') (drop 1 cs)) = '')s''
      then remove_keys (drop 2 (dropWhile (\<lambda>x. x \<noteq> CHR '')'') (drop 1 cs)))
      else c # remove_keys cs)"
  by pat_completeness auto
termination
proof (relation "measure length")
  show "wf (measure length)" by simp
next
  fix c :: char and cs :: string
  have "length (dropWhile (\<lambda>x. x \<noteq> CHR '')'') (drop 1 cs)) \<le> length (drop 1 cs)"
    by (rule length_dropWhile_le)
  then show "(drop 2 (dropWhile (\<lambda>x. x \<noteq> CHR '')'') (drop 1 cs)), c # cs) \<in> measure length"
    by simp
next
  fix c :: char and cs :: string
  show "(cs, c # cs) \<in> measure length" by simp
qed

definition before_set :: "string \<Rightarrow> exn + string" where
  \<comment> \<open>\<open>BasicInterpolation.before_set\<close>: a \<open>%\<close> that is neither doubled nor the start of
      \<open>%(name)s\<close> is refused\<close>
  "before_set v =
     (if CHR ''%'' \<in> set (remove_keys (remove_escaped v)) then Inl (ValueError v) else Inr v)"

definition optionxform :: "string \<Rightarrow> string" where
  "optionxform optionstr = lower optionstr"

definition cp_set :: "string \<Rightarrow> string \<Rightarrow> string \<Rightarrow> ConfigParser \<Rightarrow> exn + ConfigParser" where
  \<comment> \<open>\<open>ConfigParser.set(section, option, value)\<close>\<close>
  "cp_set section option v cp =
     (case (if v \<noteq> [] then before_set v else Inr v) of
        Inl e \<Rightarrow> Inl e
      | Inr v' \<Rightarrow>
          if section = [] \<or> section = ''DEFAULT''
          then Inr (cp\<lparr>defaults := dict_set (defaults cp) (optionxform option) v'\<rparr>)
          else (case map_of (sections cp) section of
                  None \<Rightarrow> Inl (NoSectionError section)
                | Some d \<Rightarrow>
                    Inr (cp\<lparr>sections :=
                      dict_set (sections cp) section (dict_set d (optionxform option) v')\<rparr>)))"

definition write_section :: "string \<Rightarrow> items \<Rightarrow> string" where
  \<comment> \<open>\<open>_write_section\<close> with the delimiter \<open>" = "\<close>\<close>
  "write_section section_name section_items =
     ''['' @ section_name @ '']\<newline>''
     @ concat (map (\<lambda>(key, v). key @ '' = '' @ replace CHR 0x0A [CHR 0x0A, CHR 0x09] v @ ''\<newline>'')
                   section_items)
     @ ''\<newline>''"

definition cp_write :: "ConfigParser \<Rightarrow> string" where
  \<comment> \<open>\<open>ConfigParser.write(fp)\<close>, as the text that reaches \<open>fp\<close>\<close>
  "cp_write cp =
     (if defaults cp \<noteq> [] then write_section ''DEFAULT'' (defaults cp) else [])
     @ concat (map (\<lambda>(name, d). write_section name d) (sections cp))"


section \<open>script/hassfest/mypy\_config.py\<close>

definition IGNORED_MODULES :: "string list" where
  "IGNORED_MODULES = [
    ''homeassistant.components.blueprint.*'',
    ''homeassistant.components.cloud.*'',
    ''homeassistant.components.config.*'',
    ''homeassistant.components.conversation.*'',
    ''homeassistant.components.deconz.*'',
    ''homeassistant.components.demo.*'',
    ''homeassistant.components.denonavr.*'',
    ''homeassistant.components.evohome.*'',
    ''homeassistant.components.fireservicerota.*'',
    ''homeassistant.components.firmata.*'',
    ''homeassistant.components.freebox.*'',
    ''homeassistant.components.geniushub.*'',
    ''homeassistant.components.google_assistant.*'',
    ''homeassistant.components.gree.*'',
    ''homeassistant.components.harmony.*'',
    ''homeassistant.components.hassio.*'',
    ''homeassistant.components.here_travel_time.*'',
    ''homeassistant.components.home_plus_control.*'',
    ''homeassistant.components.homekit.*'',
    ''homeassistant.components.homekit_controller.*'',
    ''homeassistant.components.honeywell.*'',
    ''homeassistant.components.icloud.*'',
    ''homeassistant.components.influxdb.*'',
    ''homeassistant.components.input_datetime.*'',
    ''homeassistant.components.isy994.*'',
    ''homeassistant.components.izone.*'',
    ''homeassistant.components.konnected.*'',
    ''homeassistant.components.kostal_plenticore.*'',
    ''homeassistant.components.litterrobot.*'',
    ''homeassistant.components.lovelace.*'',
    ''homeassistant.components.lutron_caseta.*'',
    ''homeassistant.components.lyric.*'',
    ''homeassistant.components.melcloud.*'',
    ''homeassistant.components.meteo_france.*'',
    ''homeassistant.components.minecraft_server.*'',
    ''homeassistant.components.mobile_app.*'',
    ''homeassistant.components.nest.legacy.*'',
    ''homeassistant.components.netgear.*'',
    ''homeassistant.components.nilu.*'',
    ''homeassistant.components.nzbget.*'',
    ''homeassistant.components.omnilogic.*'',
    ''homeassistant.components.onvif.*'',
    ''homeassistant.components.ozw.*'',
    ''homeassistant.components.philips_js.*'',
    ''homeassistant.components.plex.*'',
    ''homeassistant.components.profiler.*'',
    ''homeassistant.components.ring.*'',
    ''homeassistant.components.solaredge.*'',
    ''homeassistant.components.sonos.*'',
    ''homeassistant.components.spotify.*'',
    ''homeassistant.components.system_health.*'',
    ''homeassistant.components.telegram_bot.*'',
    ''homeassistant.components.template.*'',
    ''homeassistant.components.toon.*'',
    ''homeassistant.components.unifi.*'',
    ''homeassistant.components.upnp.*'',
    ''homeassistant.components.vizio.*'',
    ''homeassistant.components.withings.*'',
    ''homeassistant.components.xbox.*'',
    ''homeassistant.components.xiaomi_aqara.*'',
    ''homeassistant.components.xiaomi_miio.*'',
    ''homeassistant.components.yeelight.*'',
    ''homeassistant.components.zha.*'',
    ''homeassistant.components.zwave.*'']"

definition HEADER :: string where
  "HEADER = lstrip
     ''\<newline># Automatically generated by hassfest.\<newline>#\<newline># To update, run python3 -m script.hassfest\<newline>\<newline>''"

text \<open>
  \<open>REQUIRED_PYTHON_VER\<close> comes from \<open>homeassistant.const\<close>, a tuple of integers; it is
  the parameter \<open>ver\<close> of everything that renders.
\<close>

definition GENERAL_SETTINGS :: "int list \<Rightarrow> items" where
  "GENERAL_SETTINGS ver = [
    (''python_version'', join ''.'' (map str_int (take 2 ver))),
    (''show_error_codes'', ''true''),
    (''follow_imports'', ''silent''),
    (''ignore_missing_imports'', ''true''),
    (''strict_equality'', ''true''),
    (''warn_incomplete_stub'', ''true''),
    (''warn_redundant_casts'', ''true''),
    (''warn_unused_configs'', ''true''),
    (''warn_unused_ignores'', ''true'')]"

definition STRICT_SETTINGS :: "string list" where
  "STRICT_SETTINGS = [
    ''check_untyped_defs'',
    ''disallow_incomplete_defs'',
    ''disallow_subclassing_any'',
    ''disallow_untyped_calls'',
    ''disallow_untyped_decorators'',
    ''disallow_untyped_defs'',
    ''no_implicit_optional'',
    ''warn_return_any'',
    ''warn_unreachable'']"

definition STRICT_SETTINGS_CORE :: "string list" where
  "STRICT_SETTINGS_CORE = [''disallow_any_generics'']"


text \<open>
  Modelled from the spec: the classes \<open>Error\<close> and \<open>Config\<close> of \<open>script/hassfest/model.py\<close>.
  The spec gives the context a root path, an append-only error sink that accepts a source
  tag, a message and an optional fixable flag, and a string-keyed cache. Whatever else
  the context holds is the record's extension.
\<close>

record Error =
  plugin :: string
  error :: string
  fixable :: bool

record Config =
  root :: path
  errors :: "Error list"
  cache :: "string \<rightharpoonup> string"

definition add_error :: "'a Config_scheme \<Rightarrow> string \<Rightarrow> string \<Rightarrow> bool \<Rightarrow> 'a Config_scheme" where
  "add_error config p msg fx =
     config\<lparr>errors := errors config @ [\<lparr>plugin = p, error = msg, fixable = fx\<rparr>]\<rparr>"

definition has_mypy_error :: "'a Config_scheme \<Rightarrow> bool" where
  \<comment> \<open>\<open>any(err.plugin == "mypy_config" for err in config.errors)\<close>\<close>
  "has_mypy_error config = list_ex (\<lambda>err. plugin err = ''mypy_config'') (errors config)"

definition parse_modules :: "string list \<Rightarrow> string list" where
  \<comment> \<open>lines 139 to 144: filter empty and commented lines\<close>
  "parse_modules lines =
     map strip (filter (\<lambda>line. strip line \<noteq> [] \<and> \<not> startswith line ''#'') lines)"

fun classify :: "string list \<Rightarrow> string list \<Rightarrow> string list \<Rightarrow> string list \<times> string list" where
  \<comment> \<open>lines 146 to 152, from the two lists built so far\<close>
  "classify [] strict_modules strict_core_modules = (strict_modules, strict_core_modules)"
| "classify (m # ms) strict_modules strict_core_modules =
     (if startswith m ''homeassistant.components''
      then classify ms (strict_modules @ [m]) strict_core_modules
      else classify ms strict_modules (strict_core_modules @ [m]))"

definition check_strict_module :: "string \<Rightarrow> 'a Config_scheme \<Rightarrow> 'a Config_scheme" where
  \<comment> \<open>the body of the loop of lines 155 to 166\<close>
  "check_strict_module m config =
     (let config1 =
        (if \<not> startswith m ''homeassistant.components.'' \<and> m \<noteq> ''homeassistant.components''
         then add_error config ''mypy_config'' (''Only components should be added: '' @ m) False
         else config)
      in if m \<in> set IGNORED_MODULES
         then add_error config1 ''mypy_config''
                (''Module '' @ [CHR 0x27] @ m @ [CHR 0x27] @ '' is in ignored list in mypy_config.py'') False
         else config1)"

fun check_strict :: "string list \<Rightarrow> 'a Config_scheme \<Rightarrow> 'a Config_scheme" where
  "check_strict [] config = config"
| "check_strict (m # ms) config = check_strict ms (check_strict_module m config)"

definition check_module_exists :: "filesystem \<Rightarrow> string \<Rightarrow> 'a Config_scheme \<Rightarrow> 'a Config_scheme" where
  \<comment> \<open>the body of the loop of lines 170 to 182\<close>
  "check_module_exists fs m config =
     (if endswith m ''.*'' then
        (if \<not> is_dir fs (Path (replace CHR ''.'' os_path_sep (take (length m - 2) m)))
         then add_error config ''mypy_config''
                (''Module '' @ [CHR 0x27] @ m @ '' is not a folder'') False
         else config)
      else
        (let m' = replace CHR ''.'' os_path_sep m in
         if is_file fs (Path (m' @ ''.py'')) then config
         else if \<not> is_file fs (truediv (Path m') ''__init__.py'')
         then add_error config ''mypy_config''
                (''Module '' @ [CHR 0x27] @ m' @ '' doesn'' @ [CHR 0x27] @ ''t exist'') False
         else config))"

fun check_exists :: "filesystem \<Rightarrow> string list \<Rightarrow> 'a Config_scheme \<Rightarrow> 'a Config_scheme" where
  "check_exists fs [] config = config"
| "check_exists fs (m # ms) config = check_exists fs ms (check_module_exists fs m config)"

fun for_each :: "('a \<Rightarrow> 's \<Rightarrow> exn + 's) \<Rightarrow> 'a list \<Rightarrow> 's \<Rightarrow> exn + 's" where
  \<comment> \<open>a \<open>for\<close> loop whose body may raise\<close>
  "for_each body [] s = Inr s"
| "for_each body (x # xs) s =
     (case body x s of Inl e \<Rightarrow> Inl e | Inr s' \<Rightarrow> for_each body xs s')"

definition add_section_with ::
  "string \<Rightarrow> string list \<Rightarrow> string \<Rightarrow> ConfigParser \<Rightarrow> exn + ConfigParser" where
  \<comment> \<open>\<open>add_section(name)\<close>, then \<open>set(name, key, v)\<close> for each key\<close>
  "add_section_with name keys v cp =
     (case add_section name cp of Inl e \<Rightarrow> Inl e
      | Inr cp' \<Rightarrow> for_each (\<lambda>key. cp_set name key v) keys cp')"

fun statements :: "('s \<Rightarrow> exn + 's) list \<Rightarrow> 's \<Rightarrow> exn + 's" where
  \<comment> \<open>statements run in order; the first that raises ends the run\<close>
  "statements [] s = Inr s"
| "statements (stmt # rest) s =
     (case stmt s of Inl e \<Rightarrow> Inl e | Inr s' \<Rightarrow> statements rest s')"

definition build_config :: "int list \<Rightarrow> string list \<Rightarrow> string list \<Rightarrow> exn + ConfigParser" where
  \<comment> \<open>lines 188 to 224\<close>
  "build_config ver strict_modules strict_core_modules =
     statements [
       add_section ''mypy'',
       for_each (\<lambda>(key, v). cp_set ''mypy'' key v) (GENERAL_SETTINGS ver),
       for_each (\<lambda>key. cp_set ''mypy'' key ''true'') STRICT_SETTINGS,
       for_each (\<lambda>core_module.
           add_section_with (''mypy-'' @ core_module) STRICT_SETTINGS_CORE ''true'')
         strict_core_modules,
       add_section_with ''mypy-homeassistant.components.*'' STRICT_SETTINGS ''false'',
       for_each (\<lambda>strict_module.
           add_section_with (''mypy-'' @ strict_module) STRICT_SETTINGS ''true'')
         strict_modules,
       add_section_with ''mypy-tests.*'' STRICT_SETTINGS ''false'',
       for_each (\<lambda>ignored_module.
           add_section_with (''mypy-'' @ ignored_module) [''ignore_errors''] ''true'')
         IGNORED_MODULES]
     new_ConfigParser"

definition render :: "int list \<Rightarrow> string list \<Rightarrow> string list \<Rightarrow> exn + string" where
  \<comment> \<open>lines 188 to 229\<close>
  "render ver strict_modules strict_core_modules =
     (case build_config ver strict_modules strict_core_modules of
        Inl e \<Rightarrow> Inl e
      | Inr mypy_config \<Rightarrow> Inr (HEADER @ strip (cp_write mypy_config)))"

text \<open>
  The operations return the exception or the value, and the context as the call leaves
  it: what a call appended before it raised stays appended.
\<close>

definition generate_and_validate ::
  "int list \<Rightarrow> filesystem \<Rightarrow> 'a Config_scheme \<Rightarrow> (exn + string) \<times> 'a Config_scheme" where
  "generate_and_validate ver fs config =
     (case readlines fs (truediv (root config) ''.strict-typing'') of
        Inl e \<Rightarrow> (Inl e, config)
      | Inr lines \<Rightarrow>
          (case classify (parse_modules lines) [] [] of
             (strict_modules, strict_core_modules) \<Rightarrow>
               (let config1 = check_strict strict_modules config;
                    all_modules = strict_modules @ strict_core_modules @ IGNORED_MODULES;
                    config2 = check_exists fs all_modules config1
                in if has_mypy_error config2 then (Inr [], config2)
                   else (render ver strict_modules strict_core_modules, config2))))"

definition validate ::
  "int list \<Rightarrow> filesystem \<Rightarrow> 'a Config_scheme \<Rightarrow> (exn + unit) \<times> 'a Config_scheme" where
  \<comment> \<open>the argument \<open>integrations\<close> is not used\<close>
  "validate ver fs config =
     (let config_path = truediv (root config) ''mypy.ini'' in
      case generate_and_validate ver fs config of
        (Inl e, config1) \<Rightarrow> (Inl e, config1)
      | (Inr content, config1) \<Rightarrow>
          (let config2 = config1\<lparr>cache := (cache config1)(''mypy_config'' \<mapsto> content)\<rparr>
           in if has_mypy_error config2 then (Inr (), config2)
              else (case read_text fs config_path of
                      Inl e \<Rightarrow> (Inl e, config2)
                    | Inr text \<Rightarrow>
                        if strip text \<noteq> content
                        then (Inr (), add_error config2 ''mypy_config''
                                ''File mypy.ini is not up to date. Run python3 -m script.hassfest'' True)
                        else (Inr (), config2))))"

definition generate :: "filesystem \<Rightarrow> 'a Config_scheme \<Rightarrow> (exn + unit) \<times> filesystem" where
  \<comment> \<open>the file is opened for writing, and so emptied, before the cache is looked up\<close>
  "generate fs config =
     (let config_path = truediv (root config) ''mypy.ini'' in
      case cache config ''mypy_config'' of
        None \<Rightarrow> (Inl (KeyError ''mypy_config''), write_text fs config_path [])
      | Some content \<Rightarrow> (Inr (), write_text fs config_path (content @ ''\<newline>'')))"


section \<open>What a run computes\<close>

text \<open>
  The errors that the checks append and the document that the rendering builds, written
  as functions of the parsed modules and the file system; the lemmas below show that
  the program computes them.
\<close>

definition mypy_error :: "string \<Rightarrow> Error" where
  "mypy_error msg = \<lparr>plugin = ''mypy_config'', error = msg, fixable = False\<rparr>"

definition strict_module_errors :: "string \<Rightarrow> Error list" where
  "strict_module_errors m =
     (if \<not> startswith m ''homeassistant.components.'' \<and> m \<noteq> ''homeassistant.components''
      then [mypy_error (''Only components should be added: '' @ m)] else [])
     @ (if m \<in> set IGNORED_MODULES
        then [mypy_error (''Module '' @ [CHR 0x27] @ m @ [CHR 0x27] @ '' is in ignored list in mypy_config.py'')]
        else [])"

definition module_exists_errors :: "filesystem \<Rightarrow> string \<Rightarrow> Error list" where
  "module_exists_errors fs m =
     (if endswith m ''.*'' then
        (if is_dir fs (Path (replace CHR ''.'' os_path_sep (take (length m - 2) m))) then []
         else [mypy_error (''Module '' @ [CHR 0x27] @ m @ '' is not a folder'')])
      else
        (if is_file fs (Path (replace CHR ''.'' os_path_sep m @ ''.py'')) then []
         else if is_file fs (truediv (Path (replace CHR ''.'' os_path_sep m)) ''__init__.py'') then []
         else [mypy_error (''Module '' @ [CHR 0x27] @ replace CHR ''.'' os_path_sep m
                 @ '' doesn'' @ [CHR 0x27] @ ''t exist'')]))"

definition is_component :: "string \<Rightarrow> bool" where
  "is_component m = startswith m ''homeassistant.components''"

definition validation_errors :: "filesystem \<Rightarrow> string list \<Rightarrow> Error list" where
  "validation_errors fs parsed =
     concat (map strict_module_errors (filter is_component parsed))
     @ concat (map (module_exists_errors fs)
         (filter is_component parsed @ filter (\<lambda>m. \<not> is_component m) parsed @ IGNORED_MODULES))"

definition option_ok :: "string \<times> string \<Rightarrow> bool" where
  "option_ok kv = (optionxform (fst kv) = fst kv \<and> CHR ''%'' \<notin> set (snd kv))"

text \<open>One section of the document: its name, its option names and their common value.\<close>

definition section_ok :: "string \<times> string list \<times> string \<Rightarrow> bool" where
  "section_ok spec = (case spec of (name, keys, v) \<Rightarrow>
     name \<noteq> [] \<and> name \<noteq> ''DEFAULT'' \<and> distinct keys \<and> list_all (\<lambda>k. option_ok (k, v)) keys)"

definition section_of :: "string \<times> string list \<times> string \<Rightarrow> string \<times> items" where
  "section_of spec = (case spec of (name, keys, v) \<Rightarrow> (name, map (\<lambda>k. (k, v)) keys))"

fun first_duplicate :: "'a list \<Rightarrow> 'a list \<Rightarrow> 'a option" where
  \<comment> \<open>the first of the names that is among those seen or among the names before it\<close>
  "first_duplicate seen [] = None"
| "first_duplicate seen (x # xs) =
     (if x \<in> set seen then Some x else first_duplicate (seen @ [x]) xs)"

definition isdigit :: "char \<Rightarrow> bool" where
  "isdigit c = (48 \<le> (of_char c :: nat) \<and> (of_char c :: nat) \<le> 57)"

definition section_names :: "string list \<Rightarrow> string list \<Rightarrow> string list" where
  "section_names strict core =
     core @ [''homeassistant.components.*''] @ strict @ [''tests.*''] @ IGNORED_MODULES"

definition section_specs ::
  "string list \<Rightarrow> string list \<Rightarrow> (string \<times> string list \<times> string) list" where
  "section_specs strict core =
     map (\<lambda>m. (''mypy-'' @ m, STRICT_SETTINGS_CORE, ''true'')) core
     @ [(''mypy-homeassistant.components.*'', STRICT_SETTINGS, ''false'')]
     @ map (\<lambda>m. (''mypy-'' @ m, STRICT_SETTINGS, ''true'')) strict
     @ [(''mypy-tests.*'', STRICT_SETTINGS, ''false'')]
     @ map (\<lambda>m. (''mypy-'' @ m, [''ignore_errors''], ''true'')) IGNORED_MODULES"

definition settings_document :: "int list \<Rightarrow> string list \<Rightarrow> string list \<Rightarrow> (string \<times> items) list" where
  "settings_document ver strict core =
     [(''mypy'', GENERAL_SETTINGS ver @ map (\<lambda>k. (k, ''true'')) STRICT_SETTINGS)]
     @ map (\<lambda>m. (''mypy-'' @ m, map (\<lambda>k. (k, ''true'')) STRICT_SETTINGS_CORE)) core
     @ [(''mypy-homeassistant.components.*'', map (\<lambda>k. (k, ''false'')) STRICT_SETTINGS)]
     @ map (\<lambda>m. (''mypy-'' @ m, map (\<lambda>k. (k, ''true'')) STRICT_SETTINGS)) strict
     @ [(''mypy-tests.*'', map (\<lambda>k. (k, ''false'')) STRICT_SETTINGS)]
     @ map (\<lambda>m. (''mypy-'' @ m, [(''ignore_errors'', ''true'')])) IGNORED_MODULES"

definition demo_error :: Error where
  "demo_error = mypy_error (''Module '' @ [CHR 0x27] @ ''homeassistant.components.demo.*'' @ [CHR 0x27]
     @ '' is in ignored list in mypy_config.py'')"

definition document_text :: "int list \<Rightarrow> string list \<Rightarrow> string list \<Rightarrow> string" where
  "document_text ver strict core =
     concat (map (\<lambda>(name, d). write_section name d) (settings_document ver strict core))"

definition no_cr :: "string \<Rightarrow> bool" where
  "no_cr s = (CHR 0x0D \<notin> set s)"


section \<open>Concrete contexts and file systems\<close>

text \<open>The inputs at which the theorems below are evaluated.\<close>

definition fs_comment :: filesystem where
  "fs_comment = \<lparr>files = [PosixPath [] [''.strict-typing''] \<mapsto> ''# kept out\<newline>  # kept in\<newline>\<newline>''],
     is_file = (\<lambda>p. False), is_dir = (\<lambda>p. True)\<rparr>"

definition config0 :: Config where
  "config0 = \<lparr>root = PosixPath [] [], errors = [], cache = Map.empty\<rparr>"

definition config_other :: Config where
  "config_other = \<lparr>root = PosixPath [] [],
     errors = [\<lparr>plugin = ''codeowners'', error = ''File CODEOWNERS is not up to date'', fixable = True\<rparr>],
     cache = [''translations'' \<mapsto> ''en'']\<rparr>"

definition fs_misplaced :: filesystem where
  "fs_misplaced = \<lparr>files = [PosixPath [] [''.strict-typing''] \<mapsto>
       ''homeassistant.componentsx\<newline>homeassistant.components\<newline>homeassistant.components.zone\<newline>''],
     is_file = (\<lambda>p. True), is_dir = (\<lambda>p. True)\<rparr>"

definition fs_missing :: filesystem where
  "fs_missing = \<lparr>files = [PosixPath [] [''.strict-typing''] \<mapsto>
       ''missing.module\<newline>present\<newline>pkg\<newline>nofolder.*\<newline>''],
     is_file = (\<lambda>p. p = PosixPath [] [''present.py''] \<or> p = PosixPath [] [''pkg'', ''__init__.py'']),
     is_dir = (\<lambda>p. p \<noteq> PosixPath [] [''nofolder''])\<rparr>"

definition fs_all_present :: "string \<Rightarrow> filesystem" where
  \<comment> \<open>every module is there; the declaration file has the given text\<close>
  "fs_all_present declared = \<lparr>files = [PosixPath [] [''.strict-typing''] \<mapsto> declared],
     is_file = (\<lambda>p. True), is_dir = (\<lambda>p. True)\<rparr>"

definition zone_text :: string where
  "zone_text = HEADER @ strip (document_text [3, 8, 0] [''homeassistant.components.zone''] [])"

definition fs_stale :: filesystem where
  \<comment> \<open>one component declared, every module there, and an older text in \<open>mypy.ini\<close>\<close>
  "fs_stale = write_text (fs_all_present ''homeassistant.components.zone\<newline>'')
     (truediv (root config0) ''mypy.ini'') ''[mypy]\<newline>''"

definition config_validated :: Config where
  "config_validated = config0\<lparr>cache := (cache config0)(''mypy_config'' \<mapsto> zone_text)\<rparr>"

definition config_stale :: Config where
  "config_stale = add_error config_validated ''mypy_config''
     ''File mypy.ini is not up to date. Run python3 -m script.hassfest'' True"


section \<open>The two checks as lists of errors\<close>

lemma is_component_eq: "is_component = (\<lambda>m. startswith m ''homeassistant.components'')"
  by (rule ext) (simp add: is_component_def)

lemma classify_eq:
  "classify ms s c = (s @ filter is_component ms, c @ filter (\<lambda>m. \<not> is_component m) ms)"
  by (induction ms arbitrary: s c) (auto simp: is_component_def)

lemma check_strict_module_eq:
  "check_strict_module m config = config\<lparr>errors := errors config @ strict_module_errors m\<rparr>"
  by (simp add: check_strict_module_def strict_module_errors_def add_error_def mypy_error_def Let_def)

lemma check_strict_eq:
  "check_strict ms config = config\<lparr>errors := errors config @ concat (map strict_module_errors ms)\<rparr>"
  by (induction ms arbitrary: config) (simp_all add: check_strict_module_eq)

lemma check_module_exists_eq:
  "check_module_exists fs m config = config\<lparr>errors := errors config @ module_exists_errors fs m\<rparr>"
  by (simp add: check_module_exists_def module_exists_errors_def add_error_def mypy_error_def Let_def)

lemma check_exists_eq:
  "check_exists fs ms config =
     config\<lparr>errors := errors config @ concat (map (module_exists_errors fs) ms)\<rparr>"
  by (induction ms arbitrary: config) (simp_all add: check_module_exists_eq)

lemma plugin_strict_module_errors:
  "e \<in> set (strict_module_errors m) \<Longrightarrow> plugin e = ''mypy_config''"
  by (auto simp: strict_module_errors_def mypy_error_def split: if_splits)

lemma plugin_module_exists_errors:
  "e \<in> set (module_exists_errors fs m) \<Longrightarrow> plugin e = ''mypy_config''"
  by (auto simp: module_exists_errors_def mypy_error_def split: if_splits)

lemma plugin_validation_errors:
  "e \<in> set (validation_errors fs parsed) \<Longrightarrow> plugin e = ''mypy_config''"
  by (auto simp: validation_errors_def dest: plugin_strict_module_errors plugin_module_exists_errors)

lemma list_ex_all:
  "(\<And>e. e \<in> set es \<Longrightarrow> P e) \<Longrightarrow> list_ex P es = (es \<noteq> [])"
  by (cases es) (auto simp: list_ex_iff)

lemma has_mypy_error_append:
  "has_mypy_error (config\<lparr>errors := errors config @ validation_errors fs parsed\<rparr>)
     = (has_mypy_error config \<or> validation_errors fs parsed \<noteq> [])"
  by (simp add: has_mypy_error_def list_ex_all [where es = "validation_errors fs parsed"]
        plugin_validation_errors)

lemma generate_and_validate_eq:
  "generate_and_validate ver fs config =
     (case readlines fs (truediv (root config) ''.strict-typing'') of
        Inl e \<Rightarrow> (Inl e, config)
      | Inr lines \<Rightarrow>
          (if has_mypy_error config \<or> validation_errors fs (parse_modules lines) \<noteq> [] then Inr []
           else render ver (filter is_component (parse_modules lines))
                  (filter (\<lambda>m. \<not> is_component m) (parse_modules lines)),
           config\<lparr>errors := errors config @ validation_errors fs (parse_modules lines)\<rparr>))"
proof (cases "readlines fs (truediv (root config) ''.strict-typing'')")
  case (Inl e)
  then show ?thesis by (simp add: generate_and_validate_def)
next
  case (Inr lines)
  let ?p = "parse_modules lines"
  have c2: "check_exists fs
              (filter is_component ?p @ filter (\<lambda>m. \<not> is_component m) ?p @ IGNORED_MODULES)
              (check_strict (filter is_component ?p) config)
            = config\<lparr>errors := errors config @ validation_errors fs ?p\<rparr>"
    by (simp add: check_strict_eq check_exists_eq validation_errors_def)
  show ?thesis
    by (simp add: generate_and_validate_def Inr classify_eq Let_def c2 has_mypy_error_append)
qed


section \<open>Building the sections\<close>

lemma remove_escaped_id: "CHR ''%'' \<notin> set v \<Longrightarrow> remove_escaped v = v"
  by (induction v rule: remove_escaped.induct) auto

lemma remove_keys_id: "CHR ''%'' \<notin> set v \<Longrightarrow> remove_keys v = v"
  by (induction v) auto

lemma before_set_ok: "CHR ''%'' \<notin> set v \<Longrightarrow> before_set v = Inr v"
  by (simp add: before_set_def remove_escaped_id remove_keys_id)

lemma map_of_append_last:
  "name \<notin> fst ` set secs \<Longrightarrow> map_of (secs @ [(name, d)]) name = Some d"
  by (induction secs) auto

lemma dict_set_append_last:
  "name \<notin> fst ` set secs \<Longrightarrow> dict_set (secs @ [(name, d)]) name d' = secs @ [(name, d')]"
  by (induction secs) auto

lemma dict_set_fresh: "k \<notin> fst ` set d \<Longrightarrow> dict_set d k v = d @ [(k, v)]"
  by (induction d) auto

lemma cp_set_last:
  assumes "option_ok (k, v)" "name \<noteq> []" "name \<noteq> ''DEFAULT''" "name \<notin> fst ` set secs"
  shows "cp_set name k v \<lparr>defaults = dflt, sections = secs @ [(name, d)]\<rparr>
           = Inr \<lparr>defaults = dflt, sections = secs @ [(name, dict_set d k v)]\<rparr>"
  using assms
  by (simp add: cp_set_def option_ok_def before_set_ok map_of_append_last dict_set_append_last
        del: map_of_append)

lemma for_each_cp_set:
  assumes "name \<noteq> []" "name \<noteq> ''DEFAULT''" "name \<notin> fst ` set secs"
  shows "list_all option_ok kvs \<Longrightarrow> distinct (map fst kvs) \<Longrightarrow> fst ` set kvs \<inter> fst ` set d = {} \<Longrightarrow>
         for_each (\<lambda>(key, v). cp_set name key v) kvs \<lparr>defaults = dflt, sections = secs @ [(name, d)]\<rparr>
           = Inr \<lparr>defaults = dflt, sections = secs @ [(name, d @ kvs)]\<rparr>"
proof (induction kvs arbitrary: d)
  case Nil
  then show ?case by simp
next
  case (Cons kv kvs)
  obtain k v where kv: "kv = (k, v)" by (cases kv)
  from Cons.prems have ok: "option_ok (k, v)" and fresh: "k \<notin> fst ` set d"
    by (auto simp: kv)
  have step: "cp_set name k v \<lparr>defaults = dflt, sections = secs @ [(name, d)]\<rparr>
                = Inr \<lparr>defaults = dflt, sections = secs @ [(name, d @ [(k, v)])]\<rparr>"
    by (simp add: cp_set_last [OF ok assms] dict_set_fresh [OF fresh])
  have "for_each (\<lambda>(key, v). cp_set name key v) kvs
          \<lparr>defaults = dflt, sections = secs @ [(name, d @ [(k, v)])]\<rparr>
        = Inr \<lparr>defaults = dflt, sections = secs @ [(name, (d @ [(k, v)]) @ kvs)]\<rparr>"
    using Cons.prems by (intro Cons.IH) (auto simp: kv)
  then show ?case by (simp add: kv step)
qed

lemma for_each_map: "for_each body (map g xs) s = for_each (\<lambda>x. body (g x)) xs s"
  by (induction xs arbitrary: s) (auto split: sum.splits)

lemma for_each_append:
  "for_each body (xs @ ys) s =
     (case for_each body xs s of Inl e \<Rightarrow> Inl e | Inr s' \<Rightarrow> for_each body ys s')"
  by (induction xs arbitrary: s) (auto split: sum.splits)

lemma add_section_with_eq:
  assumes "section_ok (name, keys, v)"
  shows "add_section_with name keys v cp =
           (if name \<in> fst ` set (sections cp) then Inl (DuplicateSectionError name)
            else Inr (cp\<lparr>sections := sections cp @ [(name, map (\<lambda>k. (k, v)) keys)]\<rparr>))"
proof (cases "name \<in> fst ` set (sections cp)")
  case True
  with assms show ?thesis by (simp add: add_section_with_def add_section_def section_ok_def)
next
  case False
  from assms have n: "name \<noteq> []" "name \<noteq> ''DEFAULT''" and d: "distinct keys"
    and ok: "list_all (\<lambda>k. option_ok (k, v)) keys"
    by (simp_all add: section_ok_def)
  obtain dflt secs where cp: "cp = \<lparr>defaults = dflt, sections = secs\<rparr>" by (cases cp)
  from False have fresh: "name \<notin> fst ` set secs" by (simp add: cp)
  have "for_each (\<lambda>(key, v). cp_set name key v) (map (\<lambda>k. (k, v)) keys)
          \<lparr>defaults = dflt, sections = secs @ [(name, [])]\<rparr>
        = Inr \<lparr>defaults = dflt, sections = secs @ [(name, [] @ map (\<lambda>k. (k, v)) keys)]\<rparr>"
    using d ok by (intro for_each_cp_set n fresh) (simp_all add: list_all_iff comp_def distinct_map inj_on_def)
  then have "for_each (\<lambda>key. cp_set name key v) keys
          \<lparr>defaults = dflt, sections = secs @ [(name, [])]\<rparr>
        = Inr \<lparr>defaults = dflt, sections = secs @ [(name, map (\<lambda>k. (k, v)) keys)]\<rparr>"
    by (simp add: for_each_map)
  with fresh n show ?thesis
    by (simp add: add_section_with_def add_section_def cp)
qed

lemma first_duplicate_None:
  "first_duplicate seen xs = None \<longleftrightarrow> distinct xs \<and> set xs \<inter> set seen = {}"
  by (induction xs arbitrary: seen) auto

lemma first_duplicate_Some:
  "first_duplicate seen xs = Some n \<Longrightarrow> n \<in> set xs"
  by (induction xs arbitrary: seen) (auto split: if_splits)

lemma for_each_sections:
  "list_all section_ok specs \<Longrightarrow>
   for_each (\<lambda>(name, keys, v). add_section_with name keys v) specs cp
     = (case first_duplicate (map fst (sections cp)) (map fst specs) of
          Some n \<Rightarrow> Inl (DuplicateSectionError n)
        | None \<Rightarrow> Inr (cp\<lparr>sections := sections cp @ map section_of specs\<rparr>))"
proof (induction specs arbitrary: cp)
  case Nil
  then show ?case by simp
next
  case (Cons spec specs)
  obtain name keys v where spec: "spec = (name, keys, v)" by (cases spec)
  let ?cp = "cp\<lparr>sections := sections cp @ [(name, map (\<lambda>k. (k, v)) keys)]\<rparr>"
  from Cons.prems have ok: "section_ok (name, keys, v)" by (simp add: spec)
  show ?case
  proof (cases "name \<in> fst ` set (sections cp)")
    case True
    then show ?thesis by (simp add: spec add_section_with_eq [OF ok])
  next
    case False
    have "for_each (\<lambda>(name, keys, v). add_section_with name keys v) specs ?cp
      = (case first_duplicate (map fst (sections ?cp)) (map fst specs) of
          Some n \<Rightarrow> Inl (DuplicateSectionError n)
        | None \<Rightarrow> Inr (?cp\<lparr>sections := sections ?cp @ map section_of specs\<rparr>))"
      using Cons.prems by (intro Cons.IH) simp
    with False show ?thesis
      by (simp add: spec add_section_with_eq [OF ok] section_of_def split: option.splits)
  qed
qed

lemma str_nat_isdigit: "c \<in> set (str_nat n) \<Longrightarrow> isdigit c"
proof (induction n rule: str_nat.induct)
  case (1 n)
  show ?case
  proof (cases "n < 10")
    case True
    with "1.prems" show ?thesis
      by (simp add: str_nat.simps [of n] isdigit_def)
  next
    case False
    have "n mod 10 < 10" by simp
    then have "(48 + n mod 10) mod 256 = 48 + n mod 10" by simp
    with False "1.prems" "1.IH" show ?thesis
      by (auto simp: str_nat.simps [of n] isdigit_def)
  qed
qed

lemma set_join: "c \<in> set (join sep xs) \<Longrightarrow> c \<in> set sep \<or> (\<exists>x\<in>set xs. c \<in> set x)"
  by (induction sep xs rule: join.induct) auto

lemma python_version_chars:
  assumes "c \<in> set (join ''.'' (map str_int xs))"
  shows "c = CHR ''.'' \<or> c = CHR ''-'' \<or> isdigit c"
proof -
  from set_join [OF assms] show ?thesis
    by (auto simp: str_int_def dest: str_nat_isdigit split: if_splits)
qed

lemma python_version_no_percent: "CHR ''%'' \<notin> set (join ''.'' (map str_int xs))"
  using python_version_chars [of "CHR ''%''" xs] by (auto simp: isdigit_def)

lemma optionxform_keys:
  "optionxform ''python_version'' = ''python_version''"
  "optionxform ''show_error_codes'' = ''show_error_codes''"
  "optionxform ''follow_imports'' = ''follow_imports''"
  "optionxform ''ignore_missing_imports'' = ''ignore_missing_imports''"
  "optionxform ''strict_equality'' = ''strict_equality''"
  "optionxform ''warn_incomplete_stub'' = ''warn_incomplete_stub''"
  "optionxform ''warn_redundant_casts'' = ''warn_redundant_casts''"
  "optionxform ''warn_unused_configs'' = ''warn_unused_configs''"
  "optionxform ''warn_unused_ignores'' = ''warn_unused_ignores''"
  "optionxform ''check_untyped_defs'' = ''check_untyped_defs''"
  "optionxform ''disallow_incomplete_defs'' = ''disallow_incomplete_defs''"
  "optionxform ''disallow_subclassing_any'' = ''disallow_subclassing_any''"
  "optionxform ''disallow_untyped_calls'' = ''disallow_untyped_calls''"
  "optionxform ''disallow_untyped_decorators'' = ''disallow_untyped_decorators''"
  "optionxform ''disallow_untyped_defs'' = ''disallow_untyped_defs''"
  "optionxform ''no_implicit_optional'' = ''no_implicit_optional''"
  "optionxform ''warn_return_any'' = ''warn_return_any''"
  "optionxform ''warn_unreachable'' = ''warn_unreachable''"
  "optionxform ''disallow_any_generics'' = ''disallow_any_generics''"
  "optionxform ''ignore_errors'' = ''ignore_errors''"
  by (simp_all add: optionxform_def lower_def lower_char_def)

lemma general_settings_ok: "list_all option_ok (GENERAL_SETTINGS ver)"
  by (simp add: GENERAL_SETTINGS_def option_ok_def optionxform_keys python_version_no_percent)

lemma strict_settings_ok:
  "list_all (\<lambda>k. option_ok (k, ''true'')) STRICT_SETTINGS"
  "list_all (\<lambda>k. option_ok (k, ''false'')) STRICT_SETTINGS"
  "list_all (\<lambda>k. option_ok (k, ''true'')) STRICT_SETTINGS_CORE"
  "list_all (\<lambda>k. option_ok (k, ''true'')) [''ignore_errors'']"
  by (simp_all add: STRICT_SETTINGS_def STRICT_SETTINGS_CORE_def option_ok_def optionxform_keys)

lemma distinct_settings:
  "distinct STRICT_SETTINGS"
  "distinct (map fst (GENERAL_SETTINGS ver))"
  "set STRICT_SETTINGS \<inter> fst ` set (GENERAL_SETTINGS ver) = {}"
  by (simp_all add: STRICT_SETTINGS_def GENERAL_SETTINGS_def)

lemma general_section:
  "statements [
       add_section ''mypy'',
       for_each (\<lambda>(key, v). cp_set ''mypy'' key v) (GENERAL_SETTINGS ver),
       for_each (\<lambda>key. cp_set ''mypy'' key ''true'') STRICT_SETTINGS] new_ConfigParser
   = Inr \<lparr>defaults = [], sections =
       [(''mypy'', GENERAL_SETTINGS ver @ map (\<lambda>k. (k, ''true'')) STRICT_SETTINGS)]\<rparr>"
proof -
  have a: "add_section ''mypy'' new_ConfigParser = Inr \<lparr>defaults = [], sections = [] @ [(''mypy'', [])]\<rparr>"
    by (simp add: add_section_def new_ConfigParser_def)
  have b: "for_each (\<lambda>(key, v). cp_set ''mypy'' key v) (GENERAL_SETTINGS ver)
             \<lparr>defaults = [], sections = [] @ [(''mypy'', [])]\<rparr>
           = Inr \<lparr>defaults = [], sections = [] @ [(''mypy'', [] @ GENERAL_SETTINGS ver)]\<rparr>"
    by (intro for_each_cp_set general_settings_ok distinct_settings) simp_all
  have "for_each (\<lambda>(key, v). cp_set ''mypy'' key v) (map (\<lambda>k. (k, ''true'')) STRICT_SETTINGS)
             \<lparr>defaults = [], sections = [] @ [(''mypy'', GENERAL_SETTINGS ver)]\<rparr>
           = Inr \<lparr>defaults = [], sections = [] @ [(''mypy'',
                   GENERAL_SETTINGS ver @ map (\<lambda>k. (k, ''true'')) STRICT_SETTINGS)]\<rparr>"
    using strict_settings_ok(1) distinct_settings
    by (intro for_each_cp_set) (simp_all add: list_all_iff comp_def distinct_map inj_on_def image_image)
  then have c: "for_each (\<lambda>key. cp_set ''mypy'' key ''true'') STRICT_SETTINGS
             \<lparr>defaults = [], sections = [(''mypy'', GENERAL_SETTINGS ver)]\<rparr>
           = Inr \<lparr>defaults = [], sections = [(''mypy'',
                   GENERAL_SETTINGS ver @ map (\<lambda>k. (k, ''true'')) STRICT_SETTINGS)]\<rparr>"
    by (simp add: for_each_map)
  from a b c show ?thesis by simp
qed

lemma section_specs_ok: "list_all section_ok (section_specs strict core)"
  using strict_settings_ok distinct_settings(1)
  by (auto simp: section_specs_def section_ok_def list_all_iff STRICT_SETTINGS_CORE_def)

lemma fst_section_specs:
  "map fst (section_specs strict core) = map ((@) ''mypy-'') (section_names strict core)"
  by (simp add: section_specs_def section_names_def comp_def)

lemma document_section_specs:
  "(''mypy'', GENERAL_SETTINGS ver @ map (\<lambda>k. (k, ''true'')) STRICT_SETTINGS)
     # map section_of (section_specs strict core) = settings_document ver strict core"
  by (simp add: section_specs_def settings_document_def section_of_def comp_def)

lemma build_config_specs:
  "build_config ver strict core =
     for_each (\<lambda>(name, keys, v). add_section_with name keys v) (section_specs strict core)
       \<lparr>defaults = [], sections =
         [(''mypy'', GENERAL_SETTINGS ver @ map (\<lambda>k. (k, ''true'')) STRICT_SETTINGS)]\<rparr>"
proof -
  have split3: "statements (a # b # c # rest) s =
      (case statements [a, b, c] s of Inl e \<Rightarrow> Inl e | Inr s' \<Rightarrow> statements rest s')"
    for a b c :: "ConfigParser \<Rightarrow> exn + ConfigParser" and rest s
    by (simp split: sum.splits)
  have "build_config ver strict core =
      statements [
        for_each (\<lambda>core_module.
            add_section_with (''mypy-'' @ core_module) STRICT_SETTINGS_CORE ''true'') core,
        add_section_with ''mypy-homeassistant.components.*'' STRICT_SETTINGS ''false'',
        for_each (\<lambda>strict_module.
            add_section_with (''mypy-'' @ strict_module) STRICT_SETTINGS ''true'') strict,
        add_section_with ''mypy-tests.*'' STRICT_SETTINGS ''false'',
        for_each (\<lambda>ignored_module.
            add_section_with (''mypy-'' @ ignored_module) [''ignore_errors''] ''true'')
          IGNORED_MODULES]
      \<lparr>defaults = [], sections =
         [(''mypy'', GENERAL_SETTINGS ver @ map (\<lambda>k. (k, ''true'')) STRICT_SETTINGS)]\<rparr>"
    unfolding build_config_def
    by (subst split3) (simp only: general_section sum.case)
  then show ?thesis
    by (simp add: section_specs_def for_each_append for_each_map split: sum.splits)
qed

lemma build_config_eq:
  "build_config ver strict core =
     (case first_duplicate [''mypy''] (map ((@) ''mypy-'') (section_names strict core)) of
        Some n \<Rightarrow> Inl (DuplicateSectionError n)
      | None \<Rightarrow> Inr \<lparr>defaults = [], sections = settings_document ver strict core\<rparr>)"
  unfolding build_config_specs
  by (subst for_each_sections [OF section_specs_ok])
     (simp only: fst_section_specs document_section_specs [symmetric] ConfigParser.simps
        list.map fst_conv append_Cons append_Nil)

lemma first_duplicate_names:
  "first_duplicate [''mypy''] (map ((@) ''mypy-'') names) = None \<longleftrightarrow> distinct names"
  by (auto simp: first_duplicate_None distinct_map inj_on_def)

lemma build_config_ok:
  assumes "distinct (section_names strict core)"
  shows "build_config ver strict core
           = Inr \<lparr>defaults = [], sections = settings_document ver strict core\<rparr>"
proof -
  from assms
  have "first_duplicate [''mypy''] (map ((@) ''mypy-'') (section_names strict core)) = None"
    by (simp only: first_duplicate_names)
  then show ?thesis by (simp add: build_config_eq)
qed

lemma build_config_dup:
  assumes "\<not> distinct (section_names strict core)"
  shows "\<exists>n \<in> set (section_names strict core).
           build_config ver strict core = Inl (DuplicateSectionError (''mypy-'' @ n))"
proof -
  from assms obtain n where
    n: "first_duplicate [''mypy''] (map ((@) ''mypy-'') (section_names strict core)) = Some n"
    using first_duplicate_names [of "section_names strict core"] by auto
  from first_duplicate_Some [OF n] obtain m where "m \<in> set (section_names strict core)" "n = ''mypy-'' @ m"
    by auto
  with n show ?thesis by (auto simp: build_config_eq)
qed


section \<open>The frame of the operations\<close>

lemma snd_generate_and_validate:
  "\<exists>new. snd (generate_and_validate ver fs config) = config\<lparr>errors := errors config @ new\<rparr>"
proof (cases "readlines fs (truediv (root config) ''.strict-typing'')")
  case (Inl e)
  then have "snd (generate_and_validate ver fs config) = config\<lparr>errors := errors config @ []\<rparr>"
    by (simp add: generate_and_validate_eq)
  then show ?thesis by blast
next
  case (Inr lines)
  then have "snd (generate_and_validate ver fs config)
      = config\<lparr>errors := errors config @ validation_errors fs (parse_modules lines)\<rparr>"
    by (simp add: generate_and_validate_eq)
  then show ?thesis by blast
qed

text \<open>
  C9. \<open>generate_and_validate\<close> and \<open>validate\<close> leave the context as it was but for
  errors appended at the end of the error list and, in \<open>validate\<close>, the cache entry
  \<open>mypy_config\<close>: the errors already there stay, in their places, and the root, every
  other cache entry and every other field are unchanged. This holds also when the call raises.
\<close>

theorem frame_of_operations:
  "(\<exists>new. snd (generate_and_validate ver fs config) = config\<lparr>errors := errors config @ new\<rparr>)
   \<and> (\<exists>new. snd (validate ver fs config) = config\<lparr>errors := errors config @ new\<rparr>
        \<or> (\<exists>content. snd (validate ver fs config) =
              config\<lparr>errors := errors config @ new,
                     cache := (cache config)(''mypy_config'' \<mapsto> content)\<rparr>))"
proof
  show "\<exists>new. snd (generate_and_validate ver fs config) = config\<lparr>errors := errors config @ new\<rparr>"
    by (rule snd_generate_and_validate)
next
  obtain r config' where gv: "generate_and_validate ver fs config = (r, config')"
    by (cases "generate_and_validate ver fs config")
  from snd_generate_and_validate [of ver fs config] gv
  obtain new where c1: "config' = config\<lparr>errors := errors config @ new\<rparr>" by auto
  show "\<exists>new. snd (validate ver fs config) = config\<lparr>errors := errors config @ new\<rparr>
        \<or> (\<exists>content. snd (validate ver fs config) =
              config\<lparr>errors := errors config @ new,
                     cache := (cache config)(''mypy_config'' \<mapsto> content)\<rparr>)"
  proof (cases r)
    case (Inl e)
    then have "snd (validate ver fs config) = config\<lparr>errors := errors config @ new\<rparr>"
      by (simp add: validate_def gv c1)
    then show ?thesis by blast
  next
    case (Inr content)
    let ?stale = "\<lparr>plugin = ''mypy_config'',
        error = ''File mypy.ini is not up to date. Run python3 -m script.hassfest'',
        fixable = True\<rparr>"
    have "snd (validate ver fs config) =
            config\<lparr>errors := errors config @ new,
                   cache := (cache config)(''mypy_config'' \<mapsto> content)\<rparr>
          \<or> snd (validate ver fs config) =
            config\<lparr>errors := errors config @ (new @ [?stale]),
                   cache := (cache config)(''mypy_config'' \<mapsto> content)\<rparr>"
      by (simp add: validate_def gv c1 Inr Let_def add_error_def split: sum.splits)
    then show ?thesis by blast
  qed
qed

theorem frame_of_operations_witness:
  "(\<exists>new. snd (generate_and_validate [3, 8, 0] fs_comment config_other)
      = config_other\<lparr>errors := errors config_other @ new\<rparr>)
   \<and> (\<exists>new. snd (validate [3, 8, 0] fs_comment config_other) = config_other\<lparr>errors := errors config_other @ new\<rparr>
        \<or> (\<exists>content. snd (validate [3, 8, 0] fs_comment config_other) =
              config_other\<lparr>errors := errors config_other @ new,
                      cache := (cache config_other)(''mypy_config'' \<mapsto> content)\<rparr>))"
  by (rule frame_of_operations)


section \<open>The lines of the declaration file\<close>

text \<open>
  C10. A line of the declaration file that begins with whitespace and whose trimmed text
  begins with \<open>#\<close> is not taken for a comment: its trimmed text is a parsed module, it
  is classified as a core module, and the existence check runs on it, so that whatever
  that check reports for it is among the errors of the run. The lines dropped are those
  whose first character is \<open>#\<close> and those that are empty once trimmed, and no others.
\<close>

theorem indented_comment_is_kept:
  assumes "readlines fs (truediv (root config) ''.strict-typing'') = Inr lines"
    and "l \<in> set lines" and "l \<noteq> []" and "isspace (hd l)" and "startswith (strip l) ''#''"
  shows "strip l \<in> set (parse_modules lines)
    \<and> strip l \<in> set (snd (classify (parse_modules lines) [] []))
    \<and> set (errors (check_module_exists fs (strip l) (config\<lparr>errors := []\<rparr>)))
         \<subseteq> set (errors (snd (generate_and_validate ver fs config)))
    \<and> parse_modules lines = map strip (filter (\<lambda>x. \<not> (startswith x ''#'' \<or> strip x = [])) lines)"
proof -
  from assms(3,4) have raw: "\<not> startswith l ''#''"
    by (cases l) (auto simp: startswith_def isspace_def)
  from assms(5) have ne: "strip l \<noteq> []"
    by (auto simp: startswith_def)
  from assms(5) have core: "\<not> is_component (strip l)"
    by (cases "strip l") (auto simp: startswith_def is_component_def)
  from assms(2) raw ne have kept: "strip l \<in> set (parse_modules lines)"
    by (auto simp: parse_modules_def)
  with core have incore: "strip l \<in> set (filter (\<lambda>m. \<not> is_component m) (parse_modules lines))"
    by simp
  then have "set (module_exists_errors fs (strip l)) \<subseteq> set (validation_errors fs (parse_modules lines))"
    by (auto simp: validation_errors_def)
  then have "set (errors (check_module_exists fs (strip l) (config\<lparr>errors := []\<rparr>)))
         \<subseteq> set (errors (snd (generate_and_validate ver fs config)))"
    by (auto simp: generate_and_validate_eq assms(1) check_module_exists_eq)
  moreover have "parse_modules lines
      = map strip (filter (\<lambda>x. \<not> (startswith x ''#'' \<or> strip x = [])) lines)"
    by (simp add: parse_modules_def conj_commute)
  ultimately show ?thesis using kept incore by (simp add: classify_eq)
qed

lemma strict_typing_path: "truediv p ''.strict-typing'' = PosixPath (anchor p) (parts p @ [''.strict-typing''])"
  by (simp add: truediv_def Path_def splitroot_def)

lemma mypy_ini_path: "truediv p ''mypy.ini'' = PosixPath (anchor p) (parts p @ [''mypy.ini''])"
  by (simp add: truediv_def Path_def splitroot_def)

lemma readlines_comment:
  "readlines fs_comment (truediv (root config0) ''.strict-typing'')
     = Inr [''# kept out\<newline>'', ''  # kept in\<newline>'', ''\<newline>'']"
  by (simp add: readlines_def read_text_def fs_comment_def config0_def strict_typing_path)

lemma strip_kept_in: "strip ''  # kept in\<newline>'' = ''# kept in''"
  by (simp add: strip_def lstrip_def rstrip_def isspace_def)

theorem indented_comment_is_kept_witness:
  "parse_modules [''# kept out\<newline>'', ''  # kept in\<newline>'', ''\<newline>''] = [''# kept in'']
   \<and> mypy_error (''Module '' @ [CHR 0x27] @ ''# kept in doesn'' @ [CHR 0x27] @ ''t exist'')
       \<in> set (errors (snd (generate_and_validate [3, 8, 0] fs_comment config0)))"
proof -
  have "set (errors (check_module_exists fs_comment (strip ''  # kept in\<newline>'') (config0\<lparr>errors := []\<rparr>)))
         \<subseteq> set (errors (snd (generate_and_validate [3, 8, 0] fs_comment config0)))"
    using indented_comment_is_kept [OF readlines_comment, of "''  # kept in\<newline>''" "[3, 8, 0]"]
    by (simp add: strip_kept_in startswith_def isspace_def)
  moreover have "errors (check_module_exists fs_comment ''# kept in'' (config0\<lparr>errors := []\<rparr>))
      = [mypy_error (''Module '' @ [CHR 0x27] @ ''# kept in doesn'' @ [CHR 0x27] @ ''t exist'')]"
    by (simp add: check_module_exists_def endswith_def replace_def fs_comment_def add_error_def
          mypy_error_def)
  moreover have "parse_modules [''# kept out\<newline>'', ''  # kept in\<newline>'', ''\<newline>''] = [''# kept in'']"
    by (simp add: parse_modules_def strip_def lstrip_def rstrip_def isspace_def startswith_def)
  ultimately show ?thesis by (simp add: strip_kept_in)
qed


section \<open>The ignored list\<close>

lemma IGNORED_MODULES_names:
  "IGNORED_MODULES = map (\<lambda>n. ''homeassistant.components.'' @ n @ ''.*'')
    [''blueprint'',
     ''cloud'',
     ''config'',
     ''conversation'',
     ''deconz'',
     ''demo'',
     ''denonavr'',
     ''evohome'',
     ''fireservicerota'',
     ''firmata'',
     ''freebox'',
     ''geniushub'',
     ''google_assistant'',
     ''gree'',
     ''harmony'',
     ''hassio'',
     ''here_travel_time'',
     ''home_plus_control'',
     ''homekit'',
     ''homekit_controller'',
     ''honeywell'',
     ''icloud'',
     ''influxdb'',
     ''input_datetime'',
     ''isy994'',
     ''izone'',
     ''konnected'',
     ''kostal_plenticore'',
     ''litterrobot'',
     ''lovelace'',
     ''lutron_caseta'',
     ''lyric'',
     ''melcloud'',
     ''meteo_france'',
     ''minecraft_server'',
     ''mobile_app'',
     ''nest.legacy'',
     ''netgear'',
     ''nilu'',
     ''nzbget'',
     ''omnilogic'',
     ''onvif'',
     ''ozw'',
     ''philips_js'',
     ''plex'',
     ''profiler'',
     ''ring'',
     ''solaredge'',
     ''sonos'',
     ''spotify'',
     ''system_health'',
     ''telegram_bot'',
     ''template'',
     ''toon'',
     ''unifi'',
     ''upnp'',
     ''vizio'',
     ''withings'',
     ''xbox'',
     ''xiaomi_aqara'',
     ''xiaomi_miio'',
     ''yeelight'',
     ''zha'',
     ''zwave'']"
  by (simp add: IGNORED_MODULES_def)

lemma distinct_IGNORED_MODULES: "distinct IGNORED_MODULES"
  unfolding IGNORED_MODULES_names
  by (subst distinct_map) (simp add: inj_on_def)


section \<open>The check of the component list\<close>

lemma concat_map_if: "concat (map (\<lambda>x. if P x then [f x] else []) xs) = map f (filter P xs)"
  by (induction xs) auto

lemma appended_errors:
  assumes "readlines fs (truediv (root config) ''.strict-typing'') = Inr lines"
  shows "drop (length (errors config)) (errors (snd (generate_and_validate ver fs config)))
           = validation_errors fs (parse_modules lines)"
  by (simp add: generate_and_validate_eq assms)

lemma misplaced_strict_module_errors:
  "filter (\<lambda>e. startswith (error e) ''Only components should be added: '') (strict_module_errors m)
     = (if \<not> startswith m ''homeassistant.components.'' \<and> m \<noteq> ''homeassistant.components''
        then [mypy_error (''Only components should be added: '' @ m)] else [])"
  by (simp add: strict_module_errors_def mypy_error_def startswith_def)

lemma misplaced_module_exists_errors:
  "filter (\<lambda>e. startswith (error e) ''Only components should be added: '') (module_exists_errors fs m) = []"
  by (simp add: module_exists_errors_def mypy_error_def startswith_def)

text \<open>
  C5. Among the errors a run appends, those that say \<open>Only components should be added\<close>
  are, in the order of the declaration file, one for each entry of the component list
  (the entries that start with \<open>homeassistant.components\<close>) that neither starts with
  \<open>homeassistant.components.\<close> nor is \<open>homeassistant.components\<close> itself, and none for
  any other entry.
\<close>

theorem misplaced_module_errors:
  assumes "readlines fs (truediv (root config) ''.strict-typing'') = Inr lines"
  shows "fst (classify (parse_modules lines) [] [])
           = filter (\<lambda>m. startswith m ''homeassistant.components'') (parse_modules lines)
     \<and> filter (\<lambda>e. startswith (error e) ''Only components should be added: '')
         (drop (length (errors config)) (errors (snd (generate_and_validate ver fs config))))
       = map (\<lambda>m. \<lparr>plugin = ''mypy_config'', error = ''Only components should be added: '' @ m,
                    fixable = False\<rparr>)
           (filter (\<lambda>m. \<not> startswith m ''homeassistant.components.'' \<and> m \<noteq> ''homeassistant.components'')
              (fst (classify (parse_modules lines) [] [])))"
proof -
  let ?P = "\<lambda>e. startswith (error e) ''Only components should be added: ''"
  let ?strict = "filter is_component (parse_modules lines)"
  have "filter ?P (validation_errors fs (parse_modules lines))
          = concat (map (\<lambda>m. filter ?P (strict_module_errors m)) ?strict)"
    by (simp add: validation_errors_def filter_concat comp_def misplaced_module_exists_errors)
  also have "\<dots> = map (\<lambda>m. mypy_error (''Only components should be added: '' @ m))
      (filter (\<lambda>m. \<not> startswith m ''homeassistant.components.'' \<and> m \<noteq> ''homeassistant.components'') ?strict)"
    by (simp only: misplaced_strict_module_errors concat_map_if)
  finally have "filter ?P (validation_errors fs (parse_modules lines))
      = map (\<lambda>m. mypy_error (''Only components should be added: '' @ m))
      (filter (\<lambda>m. \<not> startswith m ''homeassistant.components.'' \<and> m \<noteq> ''homeassistant.components'') ?strict)" .
  moreover have "?strict = filter (\<lambda>m. startswith m ''homeassistant.components'') (parse_modules lines)"
    by (simp only: is_component_eq)
  ultimately show ?thesis
    by (simp only: appended_errors [OF assms] classify_eq mypy_error_def fst_conv append_Nil simp_thms)
qed

lemma readlines_misplaced:
  "readlines fs_misplaced (truediv (root config0) ''.strict-typing'')
     = Inr [''homeassistant.componentsx\<newline>'', ''homeassistant.components\<newline>'',
            ''homeassistant.components.zone\<newline>'']"
  by (simp add: readlines_def read_text_def fs_misplaced_def config0_def strict_typing_path)

lemma parse_misplaced:
  "parse_modules [''homeassistant.componentsx\<newline>'', ''homeassistant.components\<newline>'',
            ''homeassistant.components.zone\<newline>'']
     = [''homeassistant.componentsx'', ''homeassistant.components'', ''homeassistant.components.zone'']"
  by (simp add: parse_modules_def strip_def lstrip_def rstrip_def isspace_def startswith_def)

theorem misplaced_module_errors_witness:
  "filter (\<lambda>e. startswith (error e) ''Only components should be added: '')
     (errors (snd (generate_and_validate [3, 8, 0] fs_misplaced config0)))
   = [\<lparr>plugin = ''mypy_config'',
       error = ''Only components should be added: homeassistant.componentsx'', fixable = False\<rparr>]"
  using misplaced_module_errors [OF readlines_misplaced, of "[3, 8, 0]"]
  by (simp add: parse_misplaced classify_eq is_component_def startswith_def config0_def)


section \<open>The existence check\<close>

lemma module_exists_errors_unfold:
  "module_exists_errors fs =
     (\<lambda>m. if endswith m ''.*''
          then (if is_dir fs (Path (replace CHR ''.'' ''/'' (take (length m - 2) m))) then []
                else [\<lparr>plugin = ''mypy_config'',
                       error = ''Module '' @ [CHR 0x27] @ m @ '' is not a folder'',
                       fixable = False\<rparr>])
          else (if is_file fs (Path (replace CHR ''.'' ''/'' m @ ''.py''))
                   \<or> is_file fs (truediv (Path (replace CHR ''.'' ''/'' m)) ''__init__.py'')
                then []
                else [\<lparr>plugin = ''mypy_config'',
                       error = ''Module '' @ [CHR 0x27] @ replace CHR ''.'' ''/'' m
                                 @ '' doesn'' @ [CHR 0x27] @ ''t exist'',
                       fixable = False\<rparr>]))"
  by (rule ext) (simp add: module_exists_errors_def mypy_error_def os_path_sep_def)

text \<open>
  C6. The existence check appends, after what the check of the component list left, one
  error for each entry of component list + core list + ignored list that fails, in that
  order, and none for an entry that passes. An entry that ends in \<open>.*\<close> passes when the
  entry without these two characters, dots replaced by the separator, is a directory,
  and fails with \<open>is not a folder\<close>; any other entry passes when \<open><path>.py\<close> is a file
  or \<open><path>/__init__.py\<close> is, and fails with \<open>doesn't exist\<close>.
\<close>

theorem existence_check_errors:
  assumes "readlines fs (truediv (root config) ''.strict-typing'') = Inr lines"
    and "classify (parse_modules lines) [] [] = (strict_modules, strict_core_modules)"
  shows "errors (snd (generate_and_validate ver fs config))
     = errors (check_strict strict_modules config)
       @ concat (map
           (\<lambda>m. if endswith m ''.*''
                then (if is_dir fs (Path (replace CHR ''.'' ''/'' (take (length m - 2) m))) then []
                      else [\<lparr>plugin = ''mypy_config'',
                             error = ''Module '' @ [CHR 0x27] @ m @ '' is not a folder'',
                             fixable = False\<rparr>])
                else (if is_file fs (Path (replace CHR ''.'' ''/'' m @ ''.py''))
                         \<or> is_file fs (truediv (Path (replace CHR ''.'' ''/'' m)) ''__init__.py'')
                      then []
                      else [\<lparr>plugin = ''mypy_config'',
                             error = ''Module '' @ [CHR 0x27] @ replace CHR ''.'' ''/'' m
                                       @ '' doesn'' @ [CHR 0x27] @ ''t exist'',
                             fixable = False\<rparr>]))
           (strict_modules @ strict_core_modules @ IGNORED_MODULES))"
proof -
  from assms(2) have s: "strict_modules = filter is_component (parse_modules lines)"
    and c: "strict_core_modules = filter (\<lambda>m. \<not> is_component m) (parse_modules lines)"
    by (simp_all add: classify_eq)
  show ?thesis
    by (simp add: generate_and_validate_eq assms(1) validation_errors_def check_strict_eq s c
          module_exists_errors_unfold [symmetric])
qed

lemma readlines_missing:
  "readlines fs_missing (truediv (root config0) ''.strict-typing'')
     = Inr [''missing.module\<newline>'', ''present\<newline>'', ''pkg\<newline>'', ''nofolder.*\<newline>'']"
  by (simp add: readlines_def read_text_def fs_missing_def config0_def strict_typing_path)

lemma classify_missing:
  "classify (parse_modules [''missing.module\<newline>'', ''present\<newline>'', ''pkg\<newline>'', ''nofolder.*\<newline>'']) [] []
     = ([], [''missing.module'', ''present'', ''pkg'', ''nofolder.*''])"
  by (simp add: parse_modules_def strip_def lstrip_def rstrip_def isspace_def startswith_def)

lemma ignored_are_folders_missing:
  "concat (map (module_exists_errors fs_missing) IGNORED_MODULES) = []"
  by (simp add: IGNORED_MODULES_def module_exists_errors_def endswith_def fs_missing_def
        replace_def os_path_sep_def Path_def splitroot_def)

theorem existence_check_errors_witness:
  "errors (snd (generate_and_validate [3, 8, 0] fs_missing config0))
     = [\<lparr>plugin = ''mypy_config'',
         error = ''Module '' @ [CHR 0x27] @ ''missing/module doesn'' @ [CHR 0x27] @ ''t exist'',
         fixable = False\<rparr>,
        \<lparr>plugin = ''mypy_config'',
         error = ''Module '' @ [CHR 0x27] @ ''nofolder.* is not a folder'',
         fixable = False\<rparr>]"
proof -
  have "concat (map (module_exists_errors fs_missing) [''missing.module'', ''present'', ''pkg'', ''nofolder.*''])
     = [mypy_error (''Module '' @ [CHR 0x27] @ ''missing/module doesn'' @ [CHR 0x27] @ ''t exist''),
        mypy_error (''Module '' @ [CHR 0x27] @ ''nofolder.* is not a folder'')]"
    by (simp add: module_exists_errors_def endswith_def fs_missing_def
        replace_def os_path_sep_def Path_def splitroot_def truediv_def)
  with ignored_are_folders_missing
  have core: "concat (map (module_exists_errors fs_missing)
      ([''missing.module'', ''present'', ''pkg'', ''nofolder.*''] @ IGNORED_MODULES))
     = [mypy_error (''Module '' @ [CHR 0x27] @ ''missing/module doesn'' @ [CHR 0x27] @ ''t exist''),
        mypy_error (''Module '' @ [CHR 0x27] @ ''nofolder.* is not a folder'')]"
    by (simp only: map_append concat_append append_Nil2)
  show ?thesis
    using existence_check_errors [OF readlines_missing classify_missing, of "[3, 8, 0]"]
    by (simp only: module_exists_errors_unfold [symmetric] core append_Nil check_strict.simps)
       (simp add: config0_def mypy_error_def)
qed


section \<open>An entry of the ignored list among the declared\<close>

lemma demo_wildcard_ignored: "''homeassistant.components.demo.*'' \<in> set IGNORED_MODULES"
  by (simp add: IGNORED_MODULES_def)

lemma demo_not_ignored: "''homeassistant.components.demo'' \<notin> set IGNORED_MODULES"
  by (simp add: IGNORED_MODULES_names)

lemma all_present_no_errors:
  assumes "\<And>p. is_dir fs p" "\<And>p. is_file fs p"
  shows "module_exists_errors fs m = []"
  by (simp add: module_exists_errors_def assms)

lemma count_list_filter:
  "count_list (filter P xs) x = (if P x then count_list xs x else 0)"
  by (induction xs) auto

lemma count_strict_module_errors:
  "count_list (strict_module_errors m)
     demo_error
   = (if m = ''homeassistant.components.demo.*'' then 1 else 0)"
proof (cases "m = ''homeassistant.components.demo.*''")
  case True
  then show ?thesis
    using demo_wildcard_ignored
    by (simp add: strict_module_errors_def startswith_def mypy_error_def demo_error_def)
next
  case False
  have "m @ [CHR 0x27] @ '' is in ignored list in mypy_config.py''
      \<noteq> ''homeassistant.components.demo.*'' @ [CHR 0x27] @ '' is in ignored list in mypy_config.py''"
    using False by (simp only: append_same_eq) simp
  then show ?thesis
    using False by (simp add: strict_module_errors_def mypy_error_def demo_error_def)
qed

lemma count_module_exists_errors:
  "count_list (module_exists_errors fs m)
     demo_error = 0"
proof -
  have a: "''Module '' @ [CHR 0x27] @ x @ '' is not a folder''
         \<noteq> ''Module '' @ [CHR 0x27] @ ''homeassistant.components.demo.*'' @ [CHR 0x27]
        @ '' is in ignored list in mypy_config.py''" for x
  proof
    assume "''Module '' @ [CHR 0x27] @ x @ '' is not a folder''
         = ''Module '' @ [CHR 0x27] @ ''homeassistant.components.demo.*'' @ [CHR 0x27]
        @ '' is in ignored list in mypy_config.py''"
    then have "last (''Module '' @ [CHR 0x27] @ x @ '' is not a folder'')
         = last (''Module '' @ [CHR 0x27] @ ''homeassistant.components.demo.*'' @ [CHR 0x27]
        @ '' is in ignored list in mypy_config.py'')" by (rule arg_cong)
    then show False by simp
  qed
  have b: "''Module '' @ [CHR 0x27] @ x @ '' doesn'' @ [CHR 0x27] @ ''t exist''
         \<noteq> ''Module '' @ [CHR 0x27] @ ''homeassistant.components.demo.*'' @ [CHR 0x27]
        @ '' is in ignored list in mypy_config.py''" for x
  proof
    assume "''Module '' @ [CHR 0x27] @ x @ '' doesn'' @ [CHR 0x27] @ ''t exist''
         = ''Module '' @ [CHR 0x27] @ ''homeassistant.components.demo.*'' @ [CHR 0x27]
        @ '' is in ignored list in mypy_config.py''"
    then have "last (''Module '' @ [CHR 0x27] @ x @ '' doesn'' @ [CHR 0x27] @ ''t exist'')
         = last (''Module '' @ [CHR 0x27] @ ''homeassistant.components.demo.*'' @ [CHR 0x27]
        @ '' is in ignored list in mypy_config.py'')" by (rule arg_cong)
    then show False by simp
  qed
  show ?thesis
    using a b by (simp add: module_exists_errors_def mypy_error_def demo_error_def)
qed

lemma count_validation_errors:
  "count_list (validation_errors fs parsed)
     demo_error
   = count_list parsed ''homeassistant.components.demo.*''"
proof -
  let ?E = "demo_error"
  have s: "count_list (concat (map strict_module_errors ms)) ?E
             = count_list ms ''homeassistant.components.demo.*''" for ms
    by (induction ms) (simp_all add: count_strict_module_errors)
  have e: "count_list (concat (map (module_exists_errors fs) ms)) ?E = 0" for ms
    by (induction ms) (simp_all add: count_module_exists_errors)
  have "is_component ''homeassistant.components.demo.*''"
    by (simp add: is_component_def startswith_def)
  then show ?thesis
    unfolding validation_errors_def by (simp only: count_list_append s e count_list_filter) simp
qed

text \<open>
  C1, as amended. When the declaration list has the entry \<open>homeassistant.components.demo.*\<close>,
  which is the entry of the ignored list letter for letter, the run appends the error
  \<open>Module 'homeassistant.components.demo.*' is in ignored list in mypy_config.py\<close> once
  for each time the entry is declared, so exactly once for an entry declared once, and
  \<open>generate_and_validate\<close> returns the empty string.
\<close>

theorem ignored_entry_is_reported:
  assumes "readlines fs (truediv (root config) ''.strict-typing'') = Inr lines"
    and "''homeassistant.components.demo.*'' \<in> set (parse_modules lines)"
  shows "count_list (drop (length (errors config)) (errors (snd (generate_and_validate ver fs config))))
           \<lparr>plugin = ''mypy_config'',
            error = ''Module '' @ [CHR 0x27] @ ''homeassistant.components.demo.*'' @ [CHR 0x27]
                      @ '' is in ignored list in mypy_config.py'',
            fixable = False\<rparr>
         = count_list (parse_modules lines) ''homeassistant.components.demo.*''
     \<and> fst (generate_and_validate ver fs config) = Inr []"
proof -
  let ?E = "demo_error"
  from assms(2) have "count_list (parse_modules lines) ''homeassistant.components.demo.*'' \<noteq> 0"
    by (simp add: count_list_0_iff)
  then have "0 < count_list (parse_modules lines) ''homeassistant.components.demo.*''"
    by simp
  then have "0 < count_list (validation_errors fs (parse_modules lines)) ?E"
    by (simp only: count_validation_errors)
  then have "validation_errors fs (parse_modules lines) \<noteq> []"
    by auto
  then have "fst (generate_and_validate ver fs config) = Inr []"
    by (simp add: generate_and_validate_eq assms(1))
  moreover have "count_list (drop (length (errors config)) (errors (snd (generate_and_validate ver fs config)))) ?E
      = count_list (parse_modules lines) ''homeassistant.components.demo.*''"
    by (simp only: appended_errors [OF assms(1)] count_validation_errors)
  ultimately show ?thesis
    by (simp add: demo_error_def mypy_error_def)
qed

lemma readlines_all_present:
  "readlines (fs_all_present declared) (truediv (root config0) ''.strict-typing'')
     = Inr (splitlines_keepends (universal_newlines declared))"
  by (simp add: readlines_def read_text_def fs_all_present_def config0_def strict_typing_path)

lemma parse_demo_wildcard:
  "parse_modules (splitlines_keepends (universal_newlines ''homeassistant.components.demo.*\<newline>''))
     = [''homeassistant.components.demo.*'']"
  by (simp add: parse_modules_def strip_def lstrip_def rstrip_def isspace_def startswith_def)

theorem ignored_entry_is_reported_witness:
  "count_list (errors (snd (generate_and_validate [3, 8, 0]
       (fs_all_present ''homeassistant.components.demo.*\<newline>'') config0)))
     \<lparr>plugin = ''mypy_config'',
      error = ''Module '' @ [CHR 0x27] @ ''homeassistant.components.demo.*'' @ [CHR 0x27]
                @ '' is in ignored list in mypy_config.py'',
      fixable = False\<rparr> = 1
   \<and> fst (generate_and_validate [3, 8, 0]
       (fs_all_present ''homeassistant.components.demo.*\<newline>'') config0) = Inr []"
  using ignored_entry_is_reported [OF readlines_all_present, of "''homeassistant.components.demo.*\<newline>''" "[3, 8, 0]"]
  by (simp only: parse_demo_wildcard) (simp add: config0_def)


section \<open>The rendered text\<close>

lemma strip_core:
  assumes "s \<noteq> []" "\<not> isspace (hd s)" "\<not> isspace (last s)" "list_all isspace w"
  shows "strip (s @ w) = s"
proof -
  from assms(1,2) have l: "lstrip (s @ w) = s @ w"
    by (cases s) (simp_all add: lstrip_def)
  from assms(4) have "dropWhile isspace (rev w @ rev s) = dropWhile isspace (rev s)"
    by (intro dropWhile_append2) (simp add: list_all_iff)
  also from assms(1,3) have "\<dots> = rev s"
    by (cases "rev s") (simp_all add: last_rev [symmetric] del: last_rev)
  finally show ?thesis by (simp add: strip_def l rstrip_def)
qed

lemma last_ignored: "IGNORED_MODULES = butlast IGNORED_MODULES @ [''homeassistant.components.zwave.*'']"
  by (simp add: IGNORED_MODULES_def)

lemma document_text_ends:
  "\<exists>body. document_text ver strict core = (CHR ''['' # body @ ''e'') @ ''\<newline>\<newline>''"
proof -
  let ?ig = "\<lambda>m. (''mypy-'' @ m, [(''ignore_errors'', ''true'')])"
  have "map ?ig IGNORED_MODULES = map ?ig (butlast IGNORED_MODULES @ [''homeassistant.components.zwave.*''])"
    using last_ignored by simp
  then have ig: "map ?ig IGNORED_MODULES
      = map ?ig (butlast IGNORED_MODULES) @ [?ig ''homeassistant.components.zwave.*'']"
    by simp
  define mid where "mid =
      map (\<lambda>m. (''mypy-'' @ m, map (\<lambda>k. (k, ''true'')) STRICT_SETTINGS_CORE)) core
      @ [(''mypy-homeassistant.components.*'', map (\<lambda>k. (k, ''false'')) STRICT_SETTINGS)]
      @ map (\<lambda>m. (''mypy-'' @ m, map (\<lambda>k. (k, ''true'')) STRICT_SETTINGS)) strict
      @ [(''mypy-tests.*'', map (\<lambda>k. (k, ''false'')) STRICT_SETTINGS)]
      @ map ?ig (butlast IGNORED_MODULES)"
  have doc: "settings_document ver strict core =
      (''mypy'', GENERAL_SETTINGS ver @ map (\<lambda>k. (k, ''true'')) STRICT_SETTINGS) # mid
        @ [(''mypy-'' @ ''homeassistant.components.zwave.*'', [(''ignore_errors'', ''true'')])]"
    unfolding settings_document_def mid_def by (simp only: ig) simp
  have "write_section (''mypy-'' @ ''homeassistant.components.zwave.*'') [(''ignore_errors'', ''true'')]
      = ''[mypy-homeassistant.components.zwave.*]\<newline>ignore_errors = tru'' @ ''e'' @ ''\<newline>\<newline>''"
    by (simp add: write_section_def replace_def)
  moreover have "write_section ''mypy'' d = CHR ''['' # ''mypy]\<newline>'' @
      concat (map (\<lambda>(key, v). key @ '' = '' @ replace CHR 0x0A [CHR 0x0A, CHR 0x09] v @ ''\<newline>'') d)
     @ ''\<newline>''" for d
    by (simp add: write_section_def)
  ultimately show ?thesis
    unfolding document_text_def doc by simp
qed

lemma strip_document_text:
  "strip (document_text ver strict core) @ ''\<newline>\<newline>'' = document_text ver strict core"
  "strip (document_text ver strict core) \<noteq> []"
  "hd (strip (document_text ver strict core)) = CHR ''[''"
  "last (strip (document_text ver strict core)) = CHR ''e''"
proof -
  from document_text_ends obtain body where
    b: "document_text ver strict core = (CHR ''['' # body @ ''e'') @ ''\<newline>\<newline>''" by blast
  have "strip ((CHR ''['' # body @ ''e'') @ ''\<newline>\<newline>'') = CHR ''['' # body @ ''e''"
    by (rule strip_core) (simp_all add: isspace_def)
  then have s: "strip (document_text ver strict core) = CHR ''['' # body @ ''e''"
    by (simp only: b)
  show "strip (document_text ver strict core) @ ''\<newline>\<newline>'' = document_text ver strict core"
    unfolding s by (rule b [symmetric])
  show "strip (document_text ver strict core) \<noteq> []" by (simp add: s)
  show "hd (strip (document_text ver strict core)) = CHR ''[''" by (simp add: s)
  show "last (strip (document_text ver strict core)) = CHR ''e''" by (simp add: s)
qed

lemma render_eq:
  "render ver strict core =
     (case first_duplicate [''mypy''] (map ((@) ''mypy-'') (section_names strict core)) of
        Some n \<Rightarrow> Inl (DuplicateSectionError n)
      | None \<Rightarrow> Inr (HEADER @ strip (document_text ver strict core)))"
  by (simp add: render_def build_config_eq cp_write_def document_text_def split: option.splits)

lemma render_ok:
  "distinct (section_names strict core) \<Longrightarrow>
   render ver strict core = Inr (HEADER @ strip (document_text ver strict core))"
  by (simp add: render_def build_config_ok cp_write_def document_text_def)

lemma render_dup:
  "\<not> distinct (section_names strict core) \<Longrightarrow>
   \<exists>n \<in> set (section_names strict core).
      render ver strict core = Inl (DuplicateSectionError (''mypy-'' @ n))"
  using build_config_dup [of strict core ver] by (auto simp: render_def)

lemma has_mypy_error_after:
  assumes "readlines fs (truediv (root config) ''.strict-typing'') = Inr lines"
  shows "has_mypy_error (snd (generate_and_validate ver fs config))
           = (has_mypy_error config \<or> validation_errors fs (parse_modules lines) \<noteq> [])"
  by (simp add: generate_and_validate_eq assms has_mypy_error_append)

lemma fst_generate_and_validate:
  assumes "readlines fs (truediv (root config) ''.strict-typing'') = Inr lines"
    and "classify (parse_modules lines) [] [] = (strict_modules, strict_core_modules)"
  shows "fst (generate_and_validate ver fs config)
           = (if has_mypy_error (snd (generate_and_validate ver fs config)) then Inr []
              else render ver strict_modules strict_core_modules)"
proof -
  from assms(2) have "strict_modules = filter is_component (parse_modules lines)"
    and "strict_core_modules = filter (\<lambda>m. \<not> is_component m) (parse_modules lines)"
    by (simp_all add: classify_eq)
  then show ?thesis
    by (simp add: has_mypy_error_after [OF assms(1)]) (simp add: generate_and_validate_eq assms(1))
qed

text \<open>
  The outcome of a run that has read the declaration file. With an error tagged
  \<open>mypy_config\<close> in the context after the checks it returns the empty string. With none,
  and the names core list + \<open>homeassistant.components.*\<close> + component list + \<open>tests.*\<close> +
  ignored list pairwise distinct, it returns the header and the trimmed text of the
  settings document.
\<close>

lemma gate_then_render:
  assumes "readlines fs (truediv (root config) ''.strict-typing'') = Inr lines"
    and "classify (parse_modules lines) [] [] = (strict_modules, strict_core_modules)"
  shows "(has_mypy_error (snd (generate_and_validate ver fs config))
            \<longrightarrow> fst (generate_and_validate ver fs config) = Inr [])
     \<and> (\<not> has_mypy_error (snd (generate_and_validate ver fs config))
          \<and> distinct (strict_core_modules @ [''homeassistant.components.*''] @ strict_modules
                @ [''tests.*''] @ IGNORED_MODULES)
            \<longrightarrow> fst (generate_and_validate ver fs config)
                  = Inr (HEADER @ strip (document_text ver strict_modules strict_core_modules)))"
  using render_ok [of strict_modules strict_core_modules ver]
  by (simp add: fst_generate_and_validate [OF assms] section_names_def)

text \<open>
  A run that has read the declaration file returns in the two cases above, and in the
  one that is left, no error and a name that occurs twice, it raises
  \<open>DuplicateSectionError\<close> for the section of such a name.
\<close>

lemma returns_or_duplicate_section:
  assumes "readlines fs (truediv (root config) ''.strict-typing'') = Inr lines"
    and "classify (parse_modules lines) [] [] = (strict_modules, strict_core_modules)"
  shows "(has_mypy_error (snd (generate_and_validate ver fs config))
          \<or> distinct (strict_core_modules @ [''homeassistant.components.*''] @ strict_modules
                @ [''tests.*''] @ IGNORED_MODULES)
            \<longrightarrow> (\<exists>text. fst (generate_and_validate ver fs config) = Inr text))
     \<and> (\<not> has_mypy_error (snd (generate_and_validate ver fs config))
          \<and> \<not> distinct (strict_core_modules @ [''homeassistant.components.*''] @ strict_modules
                @ [''tests.*''] @ IGNORED_MODULES)
            \<longrightarrow> (\<exists>n \<in> set (strict_core_modules @ [''homeassistant.components.*''] @ strict_modules
                           @ [''tests.*''] @ IGNORED_MODULES).
                   fst (generate_and_validate ver fs config)
                     = Inl (DuplicateSectionError (''mypy-'' @ n))))"
  using render_ok [of strict_modules strict_core_modules ver]
    render_dup [of strict_modules strict_core_modules ver]
  by (simp add: fst_generate_and_validate [OF assms] section_names_def)


section \<open>Runs on concrete declaration files\<close>

lemma validation_errors_all_present:
  "validation_errors (fs_all_present declared) parsed
     = concat (map strict_module_errors (filter is_component parsed))"
proof -
  have "module_exists_errors (fs_all_present declared) m = []" for m
    by (rule all_present_no_errors) (simp_all add: fs_all_present_def)
  then show ?thesis by (simp add: validation_errors_def)
qed

lemma generate_and_validate_all_present:
  assumes "parse_modules (splitlines_keepends (universal_newlines declared)) = parsed"
    and "filter is_component parsed = strict"
    and "filter (\<lambda>m. \<not> is_component m) parsed = core"
  shows "generate_and_validate ver (fs_all_present declared) config0 =
     (if concat (map strict_module_errors strict) \<noteq> [] then Inr [] else render ver strict core,
      config0\<lparr>errors := concat (map strict_module_errors strict)\<rparr>)"
proof -
  have "\<not> has_mypy_error config0" "errors config0 = []"
    by (simp_all add: has_mypy_error_def config0_def)
  then show ?thesis
    by (simp add: generate_and_validate_eq readlines_all_present validation_errors_all_present assms)
qed

lemma is_component_simps:
  "is_component ''homeassistant.components.demo''"
  "is_component ''homeassistant.components.zone''"
  "\<not> is_component ''tests.*''"
  by (simp_all add: is_component_def startswith_def)

lemma not_ignored:
  "''homeassistant.components.*'' \<notin> set IGNORED_MODULES"
  "''tests.*'' \<notin> set IGNORED_MODULES"
  "''homeassistant.components.zone'' \<notin> set IGNORED_MODULES"
  by (simp_all add: IGNORED_MODULES_names)

lemma parse_demo:
  "parse_modules (splitlines_keepends (universal_newlines ''homeassistant.components.demo\<newline>''))
     = [''homeassistant.components.demo'']"
  by (simp add: parse_modules_def strip_def lstrip_def rstrip_def isspace_def startswith_def)

lemma parse_tests:
  "parse_modules (splitlines_keepends (universal_newlines ''tests.*\<newline>'')) = [''tests.*'']"
  by (simp add: parse_modules_def strip_def lstrip_def rstrip_def isspace_def startswith_def)

lemma parse_zone:
  "parse_modules (splitlines_keepends (universal_newlines ''homeassistant.components.zone\<newline>''))
     = [''homeassistant.components.zone'']"
  by (simp add: parse_modules_def strip_def lstrip_def rstrip_def isspace_def startswith_def)

lemma parse_zone_twice:
  "parse_modules (splitlines_keepends (universal_newlines
       ''homeassistant.components.zone\<newline>homeassistant.components.zone\<newline>''))
     = [''homeassistant.components.zone'', ''homeassistant.components.zone'']"
  by (simp add: parse_modules_def strip_def lstrip_def rstrip_def isspace_def startswith_def)

lemma no_strict_errors:
  "strict_module_errors ''homeassistant.components.demo'' = []"
  "strict_module_errors ''homeassistant.components.zone'' = []"
  by (simp_all add: strict_module_errors_def startswith_def demo_not_ignored not_ignored)

lemma HEADER_eq:
  "HEADER = ''# Automatically generated by hassfest.\<newline>#\<newline># To update, run python3 -m script.hassfest\<newline>\<newline>''"
  by (simp add: HEADER_def lstrip_def isspace_def)

text \<open>
  C1 fails as stated: the entry \<open>homeassistant.components.demo\<close> is not an entry of the
  ignored list, which holds \<open>homeassistant.components.demo.*\<close>. With every module there,
  the run appends no error and returns the rendered configuration.
\<close>

theorem demo_entry_counterexample:
  "errors (snd (generate_and_validate [3, 8, 0]
       (fs_all_present ''homeassistant.components.demo\<newline>'') config0)) = []
   \<and> fst (generate_and_validate [3, 8, 0]
       (fs_all_present ''homeassistant.components.demo\<newline>'') config0)
     = Inr (HEADER @ strip (document_text [3, 8, 0] [''homeassistant.components.demo''] []))
   \<and> HEADER @ strip (document_text [3, 8, 0] [''homeassistant.components.demo''] []) \<noteq> []"
proof -
  have d: "distinct (section_names [''homeassistant.components.demo''] [])"
    by (simp add: section_names_def distinct_IGNORED_MODULES not_ignored demo_not_ignored)
  have "generate_and_validate [3, 8, 0] (fs_all_present ''homeassistant.components.demo\<newline>'') config0
      = (Inr (HEADER @ strip (document_text [3, 8, 0] [''homeassistant.components.demo''] [])), config0)"
    by (subst generate_and_validate_all_present [OF parse_demo refl refl])
       (simp add: is_component_simps no_strict_errors render_ok [OF d] config0_def)
  then show ?thesis
    by (simp add: config0_def HEADER_eq)
qed

text \<open>
  C3, at an input where the code fails it. The declaration file holds the one core entry
  \<open>tests.*\<close> and \<open>tests\<close> is a directory: the checks report nothing, so the context
  holds no error tagged \<open>mypy_config\<close>, and the run does not return the header and the
  rendered text: it raises, for the section \<open>mypy-tests.*\<close> that it adds a second time.
\<close>

theorem tests_entry_raises:
  "\<not> has_mypy_error (snd (generate_and_validate [3, 8, 0] (fs_all_present ''tests.*\<newline>'') config0))
   \<and> fst (generate_and_validate [3, 8, 0] (fs_all_present ''tests.*\<newline>'') config0)
       = Inl (DuplicateSectionError ''mypy-tests.*'')"
proof -
  have r: "render [3, 8, 0] [] [''tests.*''] = Inl (DuplicateSectionError ''mypy-tests.*'')"
    by (simp add: render_eq section_names_def)
  have "generate_and_validate [3, 8, 0] (fs_all_present ''tests.*\<newline>'') config0
      = (Inl (DuplicateSectionError ''mypy-tests.*''), config0)"
    by (subst generate_and_validate_all_present [OF parse_tests refl refl])
       (simp add: is_component_simps r config0_def)
  then show ?thesis
    by (simp add: config0_def has_mypy_error_def)
qed

text \<open>
  C8, at an input where the code fails it. The declaration file holds the component
  \<open>homeassistant.components.zone\<close> twice and its file is there: the checks report
  nothing and the run raises \<open>DuplicateSectionError\<close> for the section of the entry.
\<close>

theorem duplicate_entry_raises:
  "fst (generate_and_validate [3, 8, 0]
     (fs_all_present ''homeassistant.components.zone\<newline>homeassistant.components.zone\<newline>'') config0)
   = Inl (DuplicateSectionError ''mypy-homeassistant.components.zone'')"
proof -
  have r: "render [3, 8, 0] [''homeassistant.components.zone'', ''homeassistant.components.zone''] []
      = Inl (DuplicateSectionError ''mypy-homeassistant.components.zone'')"
    by (simp add: render_eq section_names_def)
  have "generate_and_validate [3, 8, 0]
     (fs_all_present ''homeassistant.components.zone\<newline>homeassistant.components.zone\<newline>'') config0
      = (Inl (DuplicateSectionError ''mypy-homeassistant.components.zone''), config0)"
    by (subst generate_and_validate_all_present [OF parse_zone_twice refl refl])
       (simp add: is_component_simps no_strict_errors r config0_def)
  then show ?thesis by simp
qed


section \<open>No module declared\<close>

lemma has_mypy_error_all_present:
  assumes "parse_modules (splitlines_keepends (universal_newlines declared)) = parsed"
    and "concat (map strict_module_errors (filter is_component parsed)) = []"
  shows "\<not> has_mypy_error (snd (generate_and_validate ver (fs_all_present declared) config0))"
proof -
  have "\<not> has_mypy_error config0"
    by (simp add: has_mypy_error_def config0_def)
  then show ?thesis
    by (simp add: has_mypy_error_after [OF readlines_all_present] validation_errors_all_present assms)
qed

text \<open>
  C4. The rendering of the empty declaration list, that is of no component and no core
  module, returns the header followed by these sections in this order, less the two
  newlines that end the last one: \<open>[mypy]\<close> with the general settings and every strict
  option \<open>true\<close>, \<open>[mypy-homeassistant.components.*]\<close> with every strict option \<open>false\<close>,
  \<open>[mypy-tests.*]\<close> with every strict option \<open>false\<close>, and for each ignored module, in
  the order of the ignored list, \<open>[mypy-<module>]\<close> with \<open>ignore_errors = true\<close>. This
  text is what \<open>generate_and_validate\<close> returns when the declaration file declares no
  module and the checks leave no error tagged \<open>mypy_config\<close>.
\<close>

theorem empty_declaration_sections:
  "\<exists>text. render ver [] [] = Inr (HEADER @ text)
     \<and> text @ ''\<newline>\<newline>'' =
         write_section ''mypy'' (GENERAL_SETTINGS ver @ map (\<lambda>key. (key, ''true'')) STRICT_SETTINGS)
         @ write_section ''mypy-homeassistant.components.*'' (map (\<lambda>key. (key, ''false'')) STRICT_SETTINGS)
         @ write_section ''mypy-tests.*'' (map (\<lambda>key. (key, ''false'')) STRICT_SETTINGS)
         @ concat (map (\<lambda>m. write_section (''mypy-'' @ m) [(''ignore_errors'', ''true'')])
                     IGNORED_MODULES)
     \<and> (readlines fs (truediv (root config) ''.strict-typing'') = Inr lines
          \<and> parse_modules lines = []
          \<and> \<not> has_mypy_error (snd (generate_and_validate ver fs config))
        \<longrightarrow> fst (generate_and_validate ver fs config) = Inr (HEADER @ text))"
proof (intro exI [of _ "strip (document_text ver [] [])"] conjI impI)
  have d: "distinct (section_names [] [])"
    by (simp add: section_names_def distinct_IGNORED_MODULES not_ignored)
  show r: "render ver [] [] = Inr (HEADER @ strip (document_text ver [] []))"
    by (rule render_ok [OF d])
  show "strip (document_text ver [] []) @ ''\<newline>\<newline>'' =
         write_section ''mypy'' (GENERAL_SETTINGS ver @ map (\<lambda>key. (key, ''true'')) STRICT_SETTINGS)
         @ write_section ''mypy-homeassistant.components.*'' (map (\<lambda>key. (key, ''false'')) STRICT_SETTINGS)
         @ write_section ''mypy-tests.*'' (map (\<lambda>key. (key, ''false'')) STRICT_SETTINGS)
         @ concat (map (\<lambda>m. write_section (''mypy-'' @ m) [(''ignore_errors'', ''true'')])
                     IGNORED_MODULES)"
    by (simp only: strip_document_text(1))
       (simp add: document_text_def settings_document_def comp_def)
  assume a: "readlines fs (truediv (root config) ''.strict-typing'') = Inr lines
          \<and> parse_modules lines = []
          \<and> \<not> has_mypy_error (snd (generate_and_validate ver fs config))"
  then have c: "classify (parse_modules lines) [] [] = ([], [])"
    by simp
  from a have "readlines fs (truediv (root config) ''.strict-typing'') = Inr lines"
    by simp
  from fst_generate_and_validate [OF this c] a r
  show "fst (generate_and_validate ver fs config) = Inr (HEADER @ strip (document_text ver [] []))"
    by simp
qed

lemma parse_only_comments:
  "parse_modules (splitlines_keepends (universal_newlines ''# no module yet\<newline>\<newline>'')) = []"
  by (simp add: parse_modules_def strip_def lstrip_def rstrip_def isspace_def startswith_def)

theorem empty_declaration_sections_witness:
  "\<exists>text. render [3, 8, 0] [] [] = Inr (HEADER @ text)
     \<and> text @ ''\<newline>\<newline>'' =
         write_section ''mypy'' (GENERAL_SETTINGS [3, 8, 0] @ map (\<lambda>key. (key, ''true'')) STRICT_SETTINGS)
         @ write_section ''mypy-homeassistant.components.*'' (map (\<lambda>key. (key, ''false'')) STRICT_SETTINGS)
         @ write_section ''mypy-tests.*'' (map (\<lambda>key. (key, ''false'')) STRICT_SETTINGS)
         @ concat (map (\<lambda>m. write_section (''mypy-'' @ m) [(''ignore_errors'', ''true'')])
                     IGNORED_MODULES)
     \<and> fst (generate_and_validate [3, 8, 0] (fs_all_present ''# no module yet\<newline>\<newline>'') config0)
         = Inr (HEADER @ text)"
proof -
  have n: "\<not> has_mypy_error (snd (generate_and_validate [3, 8, 0]
      (fs_all_present ''# no module yet\<newline>\<newline>'') config0))"
    by (rule has_mypy_error_all_present [OF parse_only_comments]) simp
  from empty_declaration_sections [of "[3, 8, 0]" "fs_all_present ''# no module yet\<newline>\<newline>''"
      config0 "splitlines_keepends (universal_newlines ''# no module yet\<newline>\<newline>'')"]
  obtain rendered where "render [3, 8, 0] [] [] = Inr (HEADER @ rendered)"
    and "rendered @ ''\<newline>\<newline>'' =
         write_section ''mypy'' (GENERAL_SETTINGS [3, 8, 0] @ map (\<lambda>key. (key, ''true'')) STRICT_SETTINGS)
         @ write_section ''mypy-homeassistant.components.*'' (map (\<lambda>key. (key, ''false'')) STRICT_SETTINGS)
         @ write_section ''mypy-tests.*'' (map (\<lambda>key. (key, ''false'')) STRICT_SETTINGS)
         @ concat (map (\<lambda>m. write_section (''mypy-'' @ m) [(''ignore_errors'', ''true'')])
                     IGNORED_MODULES)"
    and "readlines (fs_all_present ''# no module yet\<newline>\<newline>'')
             (truediv (root config0) ''.strict-typing'')
           = Inr (splitlines_keepends (universal_newlines ''# no module yet\<newline>\<newline>''))
          \<and> parse_modules (splitlines_keepends (universal_newlines ''# no module yet\<newline>\<newline>'')) = []
          \<and> \<not> has_mypy_error (snd (generate_and_validate [3, 8, 0]
                (fs_all_present ''# no module yet\<newline>\<newline>'') config0))
        \<longrightarrow> fst (generate_and_validate [3, 8, 0]
                (fs_all_present ''# no module yet\<newline>\<newline>'') config0) = Inr (HEADER @ rendered)"
    by blast
  with readlines_all_present [of "''# no module yet\<newline>\<newline>''"] parse_only_comments n
  show ?thesis by blast
qed


section \<open>Determinism\<close>

lemma fst_generate_and_validate_cong:
  assumes "root config' = root config" "has_mypy_error config' = has_mypy_error config"
  shows "fst (generate_and_validate ver fs config') = fst (generate_and_validate ver fs config)"
  by (cases "readlines fs (truediv (root config) ''.strict-typing'')")
     (simp_all add: generate_and_validate_eq assms)

lemma generate_and_validate_idem:
  assumes "\<not> has_mypy_error (snd (generate_and_validate ver fs config))"
  shows "snd (generate_and_validate ver fs config) = config"
proof (cases "readlines fs (truediv (root config) ''.strict-typing'')")
  case (Inl e)
  then show ?thesis by (simp add: generate_and_validate_eq)
next
  case (Inr lines)
  with assms have "validation_errors fs (parse_modules lines) = []"
    by (simp add: has_mypy_error_after)
  with Inr show ?thesis by (simp add: generate_and_validate_eq)
qed

text \<open>
  C7. The string that \<open>generate_and_validate\<close> returns is a function of the declaration file
  and of the answers of the file system: a second invocation on the context that the first
  one left returns the same outcome, and when the first one reported no error it leaves
  the context as it found it, so that the two invocations are the same computation. The
  outcome is also the same from any other context with the same root that, like this one,
  holds an error tagged \<open>mypy_config\<close> or holds none; the cache, the errors of other
  plugins and the other fields have no part in it.
\<close>

theorem rendering_is_deterministic:
  "fst (generate_and_validate ver fs (snd (generate_and_validate ver fs config)))
     = fst (generate_and_validate ver fs config)
   \<and> (\<not> has_mypy_error (snd (generate_and_validate ver fs config))
        \<longrightarrow> generate_and_validate ver fs (snd (generate_and_validate ver fs config))
              = generate_and_validate ver fs config)
   \<and> (root config' = root config \<and> has_mypy_error config' = has_mypy_error config
        \<longrightarrow> fst (generate_and_validate ver fs config') = fst (generate_and_validate ver fs config))"
proof (intro conjI impI)
  show "fst (generate_and_validate ver fs (snd (generate_and_validate ver fs config)))
          = fst (generate_and_validate ver fs config)"
  proof (cases "readlines fs (truediv (root config) ''.strict-typing'')")
    case (Inl e)
    then show ?thesis by (simp add: generate_and_validate_eq)
  next
    case (Inr lines)
    then show ?thesis
      by (simp add: generate_and_validate_eq has_mypy_error_append)
  qed
next
  assume "\<not> has_mypy_error (snd (generate_and_validate ver fs config))"
  then have "snd (generate_and_validate ver fs config) = config"
    by (rule generate_and_validate_idem)
  then show "generate_and_validate ver fs (snd (generate_and_validate ver fs config))
              = generate_and_validate ver fs config"
    by (rule arg_cong)
next
  assume "root config' = root config \<and> has_mypy_error config' = has_mypy_error config"
  then have "root config' = root config" and "has_mypy_error config' = has_mypy_error config"
    by simp_all
  then show "fst (generate_and_validate ver fs config') = fst (generate_and_validate ver fs config)"
    by (rule fst_generate_and_validate_cong)
qed

lemma generate_and_validate_zone:
  "generate_and_validate ver (fs_all_present ''homeassistant.components.zone\<newline>'') config0
     = (Inr (HEADER @ strip (document_text ver [''homeassistant.components.zone''] [])), config0)"
proof -
  have d: "distinct (section_names [''homeassistant.components.zone''] [])"
    by (simp add: section_names_def distinct_IGNORED_MODULES not_ignored)
  show ?thesis
    by (subst generate_and_validate_all_present [OF parse_zone refl refl])
       (simp add: is_component_simps no_strict_errors render_ok [OF d] config0_def)
qed

theorem rendering_is_deterministic_witness:
  "fst (generate_and_validate [3, 8, 0] (fs_all_present ''homeassistant.components.zone\<newline>'')
         (snd (generate_and_validate [3, 8, 0]
            (fs_all_present ''homeassistant.components.zone\<newline>'') config0)))
     = Inr (HEADER @ strip (document_text [3, 8, 0] [''homeassistant.components.zone''] []))
   \<and> fst (generate_and_validate [3, 8, 0] (fs_all_present ''homeassistant.components.zone\<newline>'') config_other)
     = Inr (HEADER @ strip (document_text [3, 8, 0] [''homeassistant.components.zone''] []))"
proof -
  have "root config_other = root config0 \<and> has_mypy_error config_other = has_mypy_error config0"
    by (simp add: config0_def config_other_def has_mypy_error_def)
  with rendering_is_deterministic [of "[3, 8, 0]"
      "fs_all_present ''homeassistant.components.zone\<newline>''" config0 config_other]
  show ?thesis
    by (simp only: generate_and_validate_zone fst_conv snd_conv simp_thms)
qed


section \<open>Writing the file and reading it back\<close>

lemma universal_newlines_no_cr: "no_cr (universal_newlines s)"
  by (induction s rule: universal_newlines.induct) (auto simp: no_cr_def)

lemma universal_newlines_id: "no_cr s \<Longrightarrow> universal_newlines s = s"
  by (induction s rule: universal_newlines.induct) (auto simp: no_cr_def)

lemma set_splitlines_keepends: "l \<in> set (splitlines_keepends s) \<Longrightarrow> set l \<subseteq> set s"
proof (induction s arbitrary: l)
  case Nil
  then show ?case by simp
next
  case (Cons c cs)
  show ?case
  proof (cases "c = CHR 0x0A")
    case True
    with Cons show ?thesis by auto
  next
    case False
    show ?thesis
    proof (cases "splitlines_keepends cs")
      case Nil
      with False Cons.prems show ?thesis by simp
    next
      case (Cons l' ls)
      have "set l' \<subseteq> set cs"
        by (rule Cons.IH) (simp add: Cons)
      moreover have "set l \<subseteq> set cs" if "l \<in> set ls"
        by (rule Cons.IH) (simp add: Cons that)
      moreover from False Cons.prems Cons have "l = c # l' \<or> l \<in> set ls"
        by simp
      ultimately show ?thesis by auto
    qed
  qed
qed

lemma set_strip: "set (strip s) \<subseteq> set s"
proof -
  have "set (rstrip t) \<subseteq> set t" for t
    using set_dropWhileD [of _ isspace "rev t"] by (auto simp: rstrip_def)
  moreover have "set (lstrip s) \<subseteq> set s"
    using set_dropWhileD [of _ isspace s] by (auto simp: lstrip_def)
  ultimately show ?thesis
    unfolding strip_def by blast
qed

lemma no_cr_strip: "no_cr s \<Longrightarrow> no_cr (strip s)"
  using set_strip [of s] by (auto simp: no_cr_def)

lemma no_cr_Nil [simp]: "no_cr []"
  by (simp add: no_cr_def)

lemma no_cr_Cons [simp]: "no_cr (c # s) \<longleftrightarrow> c \<noteq> CHR 0x0D \<and> no_cr s"
  by (auto simp: no_cr_def)

lemma no_cr_append [simp]: "no_cr (a @ b) \<longleftrightarrow> no_cr a \<and> no_cr b"
  by (auto simp: no_cr_def)

lemma no_cr_concat: "no_cr (concat xs) \<longleftrightarrow> list_all no_cr xs"
  by (auto simp: no_cr_def list_all_iff)

lemma no_cr_parse_modules:
  assumes "readlines fs p = Inr lines" "m \<in> set (parse_modules lines)"
  shows "no_cr m"
proof -
  from assms(1) obtain s where "lines = splitlines_keepends (universal_newlines s)"
    by (auto simp: readlines_def read_text_def split: option.splits)
  with assms(2) obtain l where "l \<in> set (splitlines_keepends (universal_newlines s))" "m = strip l"
    by (auto simp: parse_modules_def)
  with set_splitlines_keepends [of l "universal_newlines s"] universal_newlines_no_cr [of s]
  have "no_cr l" by (auto simp: no_cr_def)
  with \<open>m = strip l\<close> show ?thesis by (simp add: no_cr_strip)
qed

lemma no_cr_write_section:
  assumes "no_cr name" "list_all (\<lambda>(k, v). no_cr k \<and> no_cr v) d"
  shows "no_cr (write_section name d)"
proof -
  have r: "no_cr v \<Longrightarrow> no_cr (replace CHR 0x0A [CHR 0x0A, CHR 0x09] v)" for v
    by (auto simp: no_cr_def replace_def)
  have l: "no_cr ''['' \<and> no_cr '']\<newline>'' \<and> no_cr '' = '' \<and> no_cr ''\<newline>''"
    by (simp add: no_cr_def)
  from assms r l show ?thesis
    by (auto simp: write_section_def no_cr_concat list_all_iff)
qed

lemma no_cr_settings:
  "list_all (\<lambda>(k, v). no_cr k \<and> no_cr v) (GENERAL_SETTINGS ver)"
  "list_all no_cr STRICT_SETTINGS"
  "list_all no_cr STRICT_SETTINGS_CORE"
proof -
  have "no_cr (join ''.'' (map str_int (take 2 ver)))"
    using python_version_chars [of "CHR 0x0D" "take 2 ver"]
    by (auto simp: no_cr_def isdigit_def)
  then show "list_all (\<lambda>(k, v). no_cr k \<and> no_cr v) (GENERAL_SETTINGS ver)"
    by (simp add: GENERAL_SETTINGS_def)
  show "list_all no_cr STRICT_SETTINGS" "list_all no_cr STRICT_SETTINGS_CORE"
    by (simp_all add: STRICT_SETTINGS_def STRICT_SETTINGS_CORE_def no_cr_def)
qed

lemma no_cr_ignored: "list_all no_cr IGNORED_MODULES"
  by (simp add: IGNORED_MODULES_def no_cr_def)

lemma no_cr_document_text:
  assumes "list_all no_cr strict" "list_all no_cr core"
  shows "no_cr (document_text ver strict core)"
proof -
  have lit: "no_cr ''mypy''" "no_cr ''mypy-''" "no_cr ''true''" "no_cr ''false''"
    "no_cr ''ignore_errors''" "no_cr ''mypy-homeassistant.components.*''" "no_cr ''mypy-tests.*''"
    by (simp_all add: no_cr_def)
  have keys: "list_all (\<lambda>(k, v). no_cr k \<and> no_cr v) (map (\<lambda>k. (k, v)) ks)"
    if "list_all no_cr ks" "no_cr v" for ks v
    using that by (simp add: list_all_iff)
  have "list_all (\<lambda>(name, d). no_cr name \<and> list_all (\<lambda>(k, v). no_cr k \<and> no_cr v) d)
          (settings_document ver strict core)"
    using assms no_cr_settings(1) [of ver] no_cr_settings(2,3) no_cr_ignored lit
      keys [OF no_cr_settings(2) lit(3)] keys [OF no_cr_settings(2) lit(4)]
      keys [OF no_cr_settings(3) lit(3)]
    by (auto simp: settings_document_def list_all_iff)
  then show ?thesis
    by (auto simp: document_text_def no_cr_concat list_all_iff intro!: no_cr_write_section)
qed

lemma no_cr_HEADER: "no_cr HEADER"
  by (simp add: HEADER_eq no_cr_def)

lemma strip_written:
  assumes "list_all no_cr strict" "list_all no_cr core"
  shows "strip (universal_newlines ((HEADER @ strip (document_text ver strict core)) @ ''\<newline>''))
           = HEADER @ strip (document_text ver strict core)"
proof -
  let ?content = "HEADER @ strip (document_text ver strict core)"
  have "no_cr (?content @ ''\<newline>'')"
    using no_cr_HEADER no_cr_strip [OF no_cr_document_text [OF assms]]
    by (simp add: no_cr_def)
  then have "universal_newlines (?content @ ''\<newline>'') = ?content @ ''\<newline>''"
    by (rule universal_newlines_id)
  moreover have "strip (?content @ ''\<newline>'') = ?content"
  proof (rule strip_core)
    show "?content \<noteq> []" by (simp add: HEADER_eq)
    show "\<not> isspace (hd ?content)" by (simp add: HEADER_eq isspace_def)
    show "\<not> isspace (last ?content)"
      by (simp add: strip_document_text isspace_def)
    show "list_all isspace ''\<newline>''" by (simp add: isspace_def)
  qed
  ultimately show ?thesis by simp
qed

lemma paths_differ: "truediv p ''.strict-typing'' \<noteq> truediv p ''mypy.ini''"
  by (simp add: strict_typing_path mypy_ini_path)

lemma readlines_write_text:
  "p \<noteq> q \<Longrightarrow> readlines (write_text fs q s) p = readlines fs p"
  by (simp add: readlines_def read_text_def write_text_def)

lemma read_text_write_text:
  "read_text (write_text fs q s) q = Inr (universal_newlines s)"
  by (simp add: read_text_def write_text_def)

lemma validation_errors_write_text:
  "validation_errors (write_text fs q s) parsed = validation_errors fs parsed"
proof -
  have "module_exists_errors (write_text fs q s) = module_exists_errors fs"
    by (rule ext) (simp add: module_exists_errors_def write_text_def)
  then show ?thesis by (simp add: validation_errors_def)
qed

lemma generate_and_validate_write_text:
  "generate_and_validate ver (write_text fs (truediv (root config) ''mypy.ini'') s) config
     = generate_and_validate ver fs config"
  by (cases "readlines fs (truediv (root config) ''.strict-typing'')")
     (simp_all add: generate_and_validate_eq readlines_write_text [OF paths_differ]
        validation_errors_write_text)

lemma generate_and_validate_cache:
  "generate_and_validate ver fs (config\<lparr>cache := c\<rparr>)
     = (fst (generate_and_validate ver fs config), (snd (generate_and_validate ver fs config))\<lparr>cache := c\<rparr>)"
  by (cases "readlines fs (truediv (root config) ''.strict-typing'')")
     (simp_all add: generate_and_validate_eq has_mypy_error_def)

lemma has_mypy_error_add_error: "has_mypy_error (add_error c ''mypy_config'' msg fx)"
  by (simp add: has_mypy_error_def add_error_def)

lemma has_mypy_error_cache: "has_mypy_error (c\<lparr>cache := x\<rparr>) = has_mypy_error c"
  by (simp add: has_mypy_error_def)

lemma rendered_content:
  assumes "generate_and_validate ver fs config = (Inr content, config)"
    and "\<not> has_mypy_error config"
  shows "strip (universal_newlines (content @ ''\<newline>'')) = content"
proof (cases "readlines fs (truediv (root config) ''.strict-typing'')")
  case (Inl e)
  with assms(1) show ?thesis by (simp add: generate_and_validate_eq)
next
  case (Inr lines)
  let ?strict = "filter is_component (parse_modules lines)"
  let ?core = "filter (\<lambda>m. \<not> is_component m) (parse_modules lines)"
  from assms have "\<not> has_mypy_error (snd (generate_and_validate ver fs config))"
    by simp
  with Inr have "validation_errors fs (parse_modules lines) = []"
    by (simp add: has_mypy_error_after)
  with assms Inr have "render ver ?strict ?core = Inr content"
    by (simp add: generate_and_validate_eq)
  then have content: "content = HEADER @ strip (document_text ver ?strict ?core)"
    by (simp add: render_eq split: option.splits)
  have "list_all no_cr ?strict" "list_all no_cr ?core"
    using no_cr_parse_modules [OF Inr] by (simp_all add: list_all_iff)
  then show ?thesis
    unfolding content by (rule strip_written)
qed

lemma generate_and_validate_tagged:
  assumes "generate_and_validate ver fs config = (Inr content, config)"
    and "\<not> has_mypy_error config"
    and "root c = root config" and "has_mypy_error c"
  shows "generate_and_validate ver fs c = (Inr [], c)"
proof (cases "readlines fs (truediv (root config) ''.strict-typing'')")
  case (Inl e)
  with assms(1) show ?thesis by (simp add: generate_and_validate_eq)
next
  case (Inr lines)
  from assms(1,2) have "\<not> has_mypy_error (snd (generate_and_validate ver fs config))"
    by simp
  with Inr have "validation_errors fs (parse_modules lines) = []"
    by (simp add: has_mypy_error_after)
  with Inr assms(3,4) show ?thesis
    by (simp add: generate_and_validate_eq)
qed

text \<open>
  What \<open>validate\<close> leaves when the checks pass: the context with the rendered text cached,
  and, when \<open>mypy.ini\<close> holds another text, the error that says so. An absent file makes
  it raise after the text is cached.
\<close>

lemma validate_leaves:
  assumes "generate_and_validate ver fs config = (Inr content, config)"
    and "\<not> has_mypy_error config"
  shows "snd (validate ver fs config)
           = config\<lparr>cache := (cache config)(''mypy_config'' \<mapsto> content)\<rparr>
     \<or> snd (validate ver fs config)
           = add_error (config\<lparr>cache := (cache config)(''mypy_config'' \<mapsto> content)\<rparr>)
               ''mypy_config'' ''File mypy.ini is not up to date. Run python3 -m script.hassfest'' True"
  using assms(2)
  by (simp add: validate_def assms(1) Let_def has_mypy_error_cache split: sum.splits)

lemma round_trip_cached:
  assumes gv: "generate_and_validate ver fs config = (Inr content, config)"
    and ok: "\<not> has_mypy_error config"
    and c: "c = config\<lparr>cache := (cache config)(''mypy_config'' \<mapsto> content)\<rparr>"
  shows "validate ver (write_text fs (truediv (root c) ''mypy.ini'') (content @ ''\<newline>'')) c
           = (Inr (), c)"
    and "generate_and_validate ver
           (write_text fs (truediv (root c) ''mypy.ini'') (content @ ''\<newline>'')) c
           = (Inr content, c)"
proof -
  let ?ini = "truediv (root c) ''mypy.ini''"
  let ?fs2 = "write_text fs ?ini (content @ ''\<newline>'')"
  have ok': "\<not> has_mypy_error c"
    using ok by (simp add: c has_mypy_error_cache)
  have gv1: "generate_and_validate ver fs c = (Inr content, c)"
    unfolding c by (simp add: generate_and_validate_cache gv)
  show gv2: "generate_and_validate ver ?fs2 c = (Inr content, c)"
    by (simp only: generate_and_validate_write_text gv1)
  have reread: "read_text ?fs2 ?ini = Inr (universal_newlines (content @ ''\<newline>''))"
    by (rule read_text_write_text)
  have trim: "strip (universal_newlines (content @ ''\<newline>'')) = content"
    by (rule rendered_content [OF gv ok])
  have upd: "c\<lparr>cache := (cache c)(''mypy_config'' \<mapsto> content)\<rparr> = c"
    by (simp add: c)
  show "validate ver ?fs2 c = (Inr (), c)"
    by (simp add: validate_def gv2 upd ok' reread trim)
qed

lemma round_trip_stale:
  assumes gv: "generate_and_validate ver fs config = (Inr content, config)"
    and ok: "\<not> has_mypy_error config"
    and c: "c = add_error (config\<lparr>cache := (cache config)(''mypy_config'' \<mapsto> content)\<rparr>)
               ''mypy_config'' msg True"
  shows "validate ver (write_text fs (truediv (root c) ''mypy.ini'') (content @ ''\<newline>'')) c
           = (Inr (), c\<lparr>cache := (cache c)(''mypy_config'' \<mapsto> [])\<rparr>)"
proof -
  let ?ini = "truediv (root c) ''mypy.ini''"
  let ?fs2 = "write_text fs ?ini (content @ ''\<newline>'')"
  have tagged: "has_mypy_error c"
    unfolding c by (rule has_mypy_error_add_error)
  have r: "root c = root config"
    by (simp add: c add_error_def)
  have "generate_and_validate ver fs c = (Inr [], c)"
    by (rule generate_and_validate_tagged [OF gv ok r tagged])
  then have "generate_and_validate ver ?fs2 c = (Inr [], c)"
    by (simp only: generate_and_validate_write_text)
  then show ?thesis
    using tagged by (simp add: validate_def has_mypy_error_cache)
qed

text \<open>
  C2. Take a declaration file and a file system on which the checks pass:
  \<open>generate_and_validate\<close> returns a text and leaves no error tagged \<open>mypy_config\<close>. Let
  \<open>validate\<close> run, whatever \<open>mypy.ini\<close> holds or whether it is there at all, then \<open>generate\<close>
  on the context that \<open>validate\<close> left, then \<open>validate\<close> again. The cache holds the text,
  \<open>generate\<close> writes it and a newline to \<open>mypy.ini\<close>, what is read back from the file and
  trimmed is the text, and the second \<open>validate\<close> returns and appends no error. When the
  first \<open>validate\<close> left no error, the second leaves the context as it was and computes
  the same text again.
\<close>

theorem generate_then_validate:
  assumes "generate_and_validate ver fs config = (Inr content, config')"
    and "\<not> has_mypy_error config'"
    and "validated = snd (validate ver fs config)"
    and "fs' = snd (generate fs validated)"
  shows "cache validated ''mypy_config'' = Some content
     \<and> generate fs validated
         = (Inr (), write_text fs (truediv (root validated) ''mypy.ini'') (content @ ''\<newline>''))
     \<and> (\<exists>written. read_text fs' (truediv (root validated) ''mypy.ini'') = Inr written
            \<and> strip written = content)
     \<and> fst (validate ver fs' validated) = Inr ()
     \<and> errors (snd (validate ver fs' validated)) = errors validated
     \<and> (\<not> has_mypy_error validated
          \<longrightarrow> validate ver fs' validated = (Inr (), validated)
              \<and> fst (generate_and_validate ver fs' validated) = Inr content)"
proof -
  from assms(1,2) have "snd (generate_and_validate ver fs config) = config"
    using generate_and_validate_idem [of ver fs config] by simp
  with assms(1) have same: "config' = config" by simp
  note gv = assms(1) [unfolded same] and ok = assms(2) [unfolded same]
  let ?cached = "config\<lparr>cache := (cache config)(''mypy_config'' \<mapsto> content)\<rparr>"
  let ?stale = "add_error ?cached ''mypy_config''
      ''File mypy.ini is not up to date. Run python3 -m script.hassfest'' True"
  let ?ini = "truediv (root validated) ''mypy.ini''"
  let ?fs2 = "write_text fs ?ini (content @ ''\<newline>'')"
  from validate_leaves [OF gv ok] assms(3)
  have cases: "validated = ?cached \<or> validated = ?stale" by simp
  then have cached: "cache validated ''mypy_config'' = Some content"
    by (auto simp: add_error_def)
  then have gen: "generate fs validated = (Inr (), ?fs2)"
    by (simp add: generate_def)
  then have fs': "fs' = ?fs2"
    by (simp add: assms(4))
  have reread: "read_text ?fs2 ?ini = Inr (universal_newlines (content @ ''\<newline>''))"
    by (rule read_text_write_text)
  have trim: "strip (universal_newlines (content @ ''\<newline>'')) = content"
    by (rule rendered_content [OF gv ok])
  from cases have second: "fst (validate ver ?fs2 validated) = Inr ()
      \<and> errors (snd (validate ver ?fs2 validated)) = errors validated
      \<and> (\<not> has_mypy_error validated
          \<longrightarrow> validate ver ?fs2 validated = (Inr (), validated)
              \<and> fst (generate_and_validate ver ?fs2 validated) = Inr content)"
  proof
    assume c: "validated = ?cached"
    from round_trip_cached [OF gv ok c] show ?thesis by simp
  next
    assume c: "validated = ?stale"
    have "has_mypy_error validated"
      unfolding c by (rule has_mypy_error_add_error)
    with round_trip_stale [OF gv ok c] show ?thesis by simp
  qed
  show ?thesis
    unfolding fs' using cached gen reread trim second by blast
qed

lemma zone_run:
  "generate_and_validate [3, 8, 0] (fs_all_present ''homeassistant.components.zone\<newline>'') config0
     = (Inr zone_text, config0)"
  "generate_and_validate [3, 8, 0] fs_stale config0 = (Inr zone_text, config0)"
  "\<not> has_mypy_error config0"
  unfolding fs_stale_def
  by (simp_all only: generate_and_validate_write_text generate_and_validate_zone zone_text_def)
     (simp add: config0_def has_mypy_error_def)

lemma validate_absent:
  "validate [3, 8, 0] (fs_all_present ''homeassistant.components.zone\<newline>'') config0
     = (Inl (FileNotFoundError (PosixPath [] [''mypy.ini''])), config_validated)"
proof -
  have "read_text (fs_all_present ''homeassistant.components.zone\<newline>'')
          (truediv (root config0) ''mypy.ini'') = Inl (FileNotFoundError (PosixPath [] [''mypy.ini'']))"
    by (simp add: read_text_def fs_all_present_def mypy_ini_path config0_def)
  moreover have "\<not> has_mypy_error config_validated"
    by (simp add: config_validated_def config0_def has_mypy_error_def)
  ultimately show ?thesis
    by (simp add: validate_def zone_run(1) config_validated_def)
qed

lemma validate_stale:
  "validate [3, 8, 0] fs_stale config0 = (Inr (), config_stale)"
proof -
  have "read_text fs_stale (truediv (root config0) ''mypy.ini'') = Inr (universal_newlines ''[mypy]\<newline>'')"
    unfolding fs_stale_def by (rule read_text_write_text)
  moreover have "strip (universal_newlines ''[mypy]\<newline>'') \<noteq> zone_text"
    by (simp add: zone_text_def HEADER_eq strip_def lstrip_def rstrip_def isspace_def)
  moreover have "\<not> has_mypy_error config_validated"
    by (simp add: config_validated_def config0_def has_mypy_error_def)
  ultimately show ?thesis
    by (simp add: validate_def zone_run(2) config_validated_def config_stale_def)
qed

theorem generate_then_validate_witness:
  "validate [3, 8, 0] (fs_all_present ''homeassistant.components.zone\<newline>'') config0
     = (Inl (FileNotFoundError (PosixPath [] [''mypy.ini''])), config_validated)
   \<and> validate [3, 8, 0]
        (snd (generate (fs_all_present ''homeassistant.components.zone\<newline>'') config_validated))
        config_validated = (Inr (), config_validated)
   \<and> (\<exists>written. read_text
          (snd (generate (fs_all_present ''homeassistant.components.zone\<newline>'') config_validated))
          (truediv (root config_validated) ''mypy.ini'') = Inr written \<and> strip written = zone_text)
   \<and> validate [3, 8, 0] fs_stale config0 = (Inr (), config_stale)
   \<and> fst (validate [3, 8, 0] (snd (generate fs_stale config_stale)) config_stale) = Inr ()
   \<and> errors (snd (validate [3, 8, 0] (snd (generate fs_stale config_stale)) config_stale))
       = errors config_stale
   \<and> (\<exists>written. read_text (snd (generate fs_stale config_stale))
          (truediv (root config_stale) ''mypy.ini'') = Inr written \<and> strip written = zone_text)"
proof -
  have a: "config_validated
      = snd (validate [3, 8, 0] (fs_all_present ''homeassistant.components.zone\<newline>'') config0)"
    by (simp add: validate_absent)
  have s: "config_stale = snd (validate [3, 8, 0] fs_stale config0)"
    by (simp add: validate_stale)
  have n: "\<not> has_mypy_error config_validated"
    by (simp add: config_validated_def config0_def has_mypy_error_def)
  from generate_then_validate [OF zone_run(1) zone_run(3) a refl] n
    generate_then_validate [OF zone_run(2) zone_run(3) s refl]
    validate_absent validate_stale
  show ?thesis by blast
qed

end
